theory Spec2Isabelle
  imports Complex_Main
begin

section \<open>Data model\<close>

text \<open>
  The program (\<^verbatim>\<open>cultura2.py\<close>) works on pandas data frames. A frame is modelled as its
  row count (\<^verbatim>\<open>len(df)\<close>) and the ordered list of its named columns; column names are
  unique in a frame read from a spreadsheet. The missing value (\<^verbatim>\<open>NaN\<close>, \<^verbatim>\<open>None\<close>) is
  \<open>None\<close> or \<open>NA\<close>. A column carries its dtype, since the code branches on it: float64,
  object (any mix of strings, numbers and missing values) or category.

  The numbers of a frame are of a type \<open>'f\<close> that the stages share. A float64 value other
  than \<^verbatim>\<open>NaN\<close> is a real number or one of the two infinities, the type \<open>float64\<close> below,
  ordered as IEEE orders them; the weight repair, which only reads, compares and replaces
  numbers, is stated for it. The aggregations and the association measure do arithmetic on
  the numbers; they are stated on frames of real numbers, so on finite values and without
  rounding.
\<close>

datatype float64 = MinusInf | Finite real | PlusInf

instantiation float64 :: "{zero, one, linorder}"
begin

definition zero_float64 :: float64 where
  "0 = Finite 0"

definition one_float64 :: float64 where
  "1 = Finite 1"

definition less_eq_float64 :: "float64 \<Rightarrow> float64 \<Rightarrow> bool" where
  "x \<le> y \<longleftrightarrow>
     (case x of
        MinusInf \<Rightarrow> True
      | Finite a \<Rightarrow> (case y of MinusInf \<Rightarrow> False | Finite b \<Rightarrow> a \<le> b | PlusInf \<Rightarrow> True)
      | PlusInf \<Rightarrow> y = PlusInf)"

definition less_float64 :: "float64 \<Rightarrow> float64 \<Rightarrow> bool" where
  "x < y \<longleftrightarrow> x \<le> y \<and> \<not> y \<le> (x :: float64)"

instance
  by standard (auto simp: less_eq_float64_def less_float64_def split: float64.splits)

end

instance float64 :: zero_less_one
  by standard (simp add: less_eq_float64_def less_float64_def zero_float64_def one_float64_def)

text \<open>\<^verbatim>\<open>np.isfinite\<close> on a value that is not \<^verbatim>\<open>NaN\<close>.\<close>

fun isfinite :: "float64 \<Rightarrow> bool" where
  "isfinite (Finite r) = True"
| "isfinite MinusInf = False"
| "isfinite PlusInf = False"

datatype 'f cell = NA | Num 'f | Str string

datatype 'f column =
    Float64 "'f option list"
  | Object "'f cell list"
  | Category "string option list"

record 'f dataframe =
  nrows :: nat
  cols :: "(string \<times> 'f column) list"

fun col_length :: "'f column \<Rightarrow> nat" where
  "col_length (Float64 xs) = length xs"
| "col_length (Object xs) = length xs"
| "col_length (Category xs) = length xs"

text \<open>Every column of a frame has one entry per row, and no two columns share a name.\<close>

definition wf_dataframe :: "'f dataframe \<Rightarrow> bool" where
  "wf_dataframe df \<longleftrightarrow>
     distinct (map fst (cols df)) \<and> list_all (\<lambda>nc. col_length (snd nc) = nrows df) (cols df)"

text \<open>\<^verbatim>\<open>Series.isnull().sum()\<close>: the number of missing entries of a column.\<close>

fun isnull_sum :: "'f column \<Rightarrow> nat" where
  "isnull_sum (Float64 xs) = length (filter (\<lambda>v. v = None) xs)"
| "isnull_sum (Object xs) = length (filter (\<lambda>v. v = NA) xs)"
| "isnull_sum (Category xs) = length (filter (\<lambda>v. v = None) xs)"

section \<open>Cleaning stage: \<^verbatim>\<open>limpiar_datos_categoricos\<close>\<close>

text \<open>The entries of \<^verbatim>\<open>info_limpieza['observaciones']\<close>, with the numbers they print.\<close>

datatype observacion = Eliminadas nat real | Imputadas nat

record info_limpieza =
  forma_original :: "nat \<times> nat"
  columnas_eliminadas :: "string list"
  columnas_imputadas_categoricas :: "string list"
  observaciones :: "observacion list"
  forma_final :: "nat \<times> nat"

text \<open>
  \<^verbatim>\<open>porcentaje_na = (na_por_columna / len(df_limpio)) * 100\<close>. With no rows pandas divides
  0 by 0 and the percentage is \<^verbatim>\<open>NaN\<close>.
\<close>

definition porcentaje_na :: "'f dataframe \<Rightarrow> 'f column \<Rightarrow> real option" where
  "porcentaje_na df c =
     (if nrows df = 0 then None
      else Some (real (isnull_sum c) / real (nrows df) * 100))"

text \<open>The comparison \<^verbatim>\<open>p > t\<close> of pandas: false on a missing percentage.\<close>

definition gt_nan :: "real option \<Rightarrow> real \<Rightarrow> bool" where
  "gt_nan p t = (case p of None \<Rightarrow> False | Some v \<Rightarrow> v > t)"

text \<open>
  \<^verbatim>\<open>porcentaje_na[porcentaje_na > (umbral_na * 100)].index.tolist()\<close>: a boolean mask over
  the columns, which keeps them in the order of the frame.
\<close>

definition columnas_a_eliminar :: "'f dataframe \<Rightarrow> real \<Rightarrow> string list" where
  "columnas_a_eliminar df umbral_na =
     map fst (filter (\<lambda>nc. gt_nan (porcentaje_na df (snd nc)) (umbral_na * 100)) (cols df))"

text \<open>\<^verbatim>\<open>df.drop(columns=...)\<close>\<close>

definition drop_columns :: "'f dataframe \<Rightarrow> string list \<Rightarrow> 'f dataframe" where
  "drop_columns df names = df\<lparr>cols := filter (\<lambda>nc. fst nc \<notin> set names) (cols df)\<rparr>"

text \<open>\<^verbatim>\<open>select_dtypes(include=['object', 'category'])\<close>\<close>

fun is_categorical :: "'f column \<Rightarrow> bool" where
  "is_categorical (Float64 xs) = False"
| "is_categorical (Object xs) = True"
| "is_categorical (Category xs) = True"

text \<open>
  \<^verbatim>\<open>fillna("NO INFORMACION")\<close>; on a category column the label is first added to the
  categories, so the fill is defined there too.
\<close>

fun fillna_no_informacion :: "'f column \<Rightarrow> 'f column" where
  "fillna_no_informacion (Float64 xs) = Float64 xs"
| "fillna_no_informacion (Object xs) =
     Object (map (\<lambda>v. if v = NA then Str ''NO INFORMACION'' else v) xs)"
| "fillna_no_informacion (Category xs) =
     Category (map (\<lambda>v. if v = None then Some ''NO INFORMACION'' else v) xs)"

text \<open>
  The loop of step 2 over the categorical columns, in the order of the frame: a column
  with a missing entry is filled and its name recorded. The result is the new column list
  and the names recorded.
\<close>

fun imputar :: "(string \<times> 'f column) list \<Rightarrow> (string \<times> 'f column) list \<times> string list" where
  "imputar [] = ([], [])"
| "imputar ((name, c) # rest) =
     (let (rest', imputadas) = imputar rest
      in if is_categorical c \<and> isnull_sum c > 0
         then ((name, fillna_no_informacion c) # rest', name # imputadas)
         else ((name, c) # rest', imputadas))"

definition shape :: "'f dataframe \<Rightarrow> nat \<times> nat" where
  "shape df = (nrows df, length (cols df))"

definition limpiar_datos_categoricos :: "'f dataframe \<Rightarrow> real \<Rightarrow> 'f dataframe \<times> info_limpieza" where
  "limpiar_datos_categoricos df umbral_na =
     (let eliminar = columnas_a_eliminar df umbral_na;
          df1 = (if eliminar \<noteq> [] then drop_columns df eliminar else df);
          obs1 = (if eliminar \<noteq> [] then [Eliminadas (length eliminar) (umbral_na * 100)] else []);
          (cs, imputadas) = imputar (cols df1);
          df2 = df1\<lparr>cols := cs\<rparr>
      in (df2,
          \<lparr>forma_original = shape df,
           columnas_eliminadas = eliminar,
           columnas_imputadas_categoricas = imputadas,
           observaciones = obs1 @ [Imputadas (length imputadas)],
           forma_final = shape df2\<rparr>))"

section \<open>Derivation stage: the blocks of \<^verbatim>\<open>load_and_process_data\<close>\<close>

subsection \<open>Access to columns\<close>

text \<open>\<^verbatim>\<open>name in df.columns\<close> and \<^verbatim>\<open>df[name]\<close>: \<open>None\<close> is the \<^verbatim>\<open>KeyError\<close> case.\<close>

definition get_col :: "'f dataframe \<Rightarrow> string \<Rightarrow> 'f column option" where
  "get_col df name = map_of (cols df) name"

text \<open>
  \<^verbatim>\<open>df[name] = c\<close>: an existing column is replaced where it stands, a new one is added
  after the last column.
\<close>

fun assign_col :: "(string \<times> 'f column) list \<Rightarrow> string \<Rightarrow> 'f column \<Rightarrow> (string \<times> 'f column) list" where
  "assign_col [] name c = [(name, c)]"
| "assign_col ((n, old) # rest) name c =
     (if n = name then (n, c) # rest else (n, old) # assign_col rest name c)"

definition set_col :: "'f dataframe \<Rightarrow> string \<Rightarrow> 'f column \<Rightarrow> 'f dataframe" where
  "set_col df name c = df\<lparr>cols := assign_col (cols df) name c\<rparr>"

text \<open>
  \<^verbatim>\<open>pd.to_numeric(column, errors='coerce')\<close>. Numbers stay, missing values stay missing,
  and a string becomes the number it spells or a missing value; the spellings of infinity
  (\<^verbatim>\<open>inf\<close>, \<^verbatim>\<open>-inf\<close>, a literal too large for a float64) are read as an infinity. The
  reading of strings is pandas' own; it is the parameter \<open>parse\<close> here, and the properties
  below hold for every such function.
\<close>

fun to_numeric :: "(string \<Rightarrow> 'f option) \<Rightarrow> 'f column \<Rightarrow> 'f option list" where
  "to_numeric parse (Float64 xs) = xs"
| "to_numeric parse (Object xs) =
     map (\<lambda>v. case v of NA \<Rightarrow> None | Num r \<Rightarrow> Some r | Str s \<Rightarrow> parse s) xs"
| "to_numeric parse (Category xs) =
     map (\<lambda>v. case v of None \<Rightarrow> None | Some s \<Rightarrow> parse s) xs"

subsection \<open>Expansion weight\<close>

text \<open>The \<^verbatim>\<open>st.warning\<close> messages of the block, with the count each one prints.\<close>

datatype aviso = Valores_no_validos nat | Valores_no_positivos nat | Factor_no_encontrado

text \<open>
  \<^verbatim>\<open>(s <= 0)\<close> on a float64 value: false on a missing one, true on minus infinity and
  false on plus infinity.
\<close>

definition le_zero :: "'f::{zero, ord} option \<Rightarrow> bool" where
  "le_zero v = (case v of None \<Rightarrow> False | Some r \<Rightarrow> r \<le> 0)"

text \<open>
  Lines 287 to 302. The column is coerced to numbers; if some value is missing the count
  is reported and the missing values become 1; then, if some value is not positive, that
  count is reported and those values become 1. Without the column, a column of ones is
  added and the assumption is reported.
\<close>

definition validar_factor_expansion ::
    "(string \<Rightarrow> 'f option) \<Rightarrow> 'f::{zero, one, ord} dataframe \<Rightarrow> 'f dataframe \<times> aviso list" where
  "validar_factor_expansion parse df =
     (case get_col df ''FACTOR DE EXPANSION'' of
        Some c \<Rightarrow>
          (let w0 = to_numeric parse c;
               valores_nulos = length (filter (\<lambda>v. v = None) w0);
               w1 = (if valores_nulos > 0
                     then map (\<lambda>v. if v = None then Some 1 else v) w0 else w0);
               avisos1 = (if valores_nulos > 0 then [Valores_no_validos valores_nulos] else []);
               valores_invalidos = length (filter le_zero w1);
               w2 = (if valores_invalidos > 0
                     then map (\<lambda>v. if le_zero v then Some 1 else v) w1 else w1);
               avisos2 = (if valores_invalidos > 0
                          then [Valores_no_positivos valores_invalidos] else [])
           in (set_col df ''FACTOR DE EXPANSION'' (Float64 w2), avisos1 @ avisos2))
      | None \<Rightarrow>
          (set_col df ''FACTOR DE EXPANSION'' (Float64 (replicate (nrows df) (Some 1))),
           [Factor_no_encontrado]))"

text \<open>The two repairs on one value, one after the other.\<close>

definition reparar :: "'f::{zero, one, ord} option \<Rightarrow> 'f option" where
  "reparar v = (case v of None \<Rightarrow> Some 1 | Some r \<Rightarrow> if r \<le> 0 then Some 1 else Some r)"

subsection \<open>Age groups\<close>

text \<open>
  \<^verbatim>\<open>pd.cut(x, bins, labels=labels, include_lowest=...)\<close> with the default
  \<^verbatim>\<open>right=True\<close>, as pandas computes it: the position of a value is the number of bin
  edges below it (\<^verbatim>\<open>bins.searchsorted(x, side='left')\<close>); with \<^verbatim>\<open>include_lowest\<close> a
  value equal to the first edge gets position 1; position 0, position \<^verbatim>\<open>len(bins)\<close> and
  a missing value give a missing result; otherwise the label at position \<open>- 1\<close>.
\<close>

definition searchsorted_left :: "real list \<Rightarrow> real \<Rightarrow> nat" where
  "searchsorted_left bins x = length (filter (\<lambda>b. b < x) bins)"

definition cut :: "real list \<Rightarrow> 'l list \<Rightarrow> bool \<Rightarrow> real option \<Rightarrow> 'l option" where
  "cut bins labels include_lowest x =
     (case x of
        None \<Rightarrow> None
      | Some v \<Rightarrow>
          (let ids = (if include_lowest \<and> v = bins ! 0 then 1 else searchsorted_left bins v)
           in if ids = length bins \<or> ids = 0 then None else Some (labels ! (ids - 1))))"

text \<open>
  The labels of \<^verbatim>\<open>grupo_edad\<close>. A string is a list of code points; the first label is
  spelled with n-tilde, code point 241.
\<close>

definition labels_edad :: "string list" where
  "labels_edad =
     [''Ni'' @ [CHR 0xF1] @ ''ez (0-12)'', ''Adolescencia (13-18)'', ''Juventud (19-28)'',
      ''Adultez temprana (29-40)'', ''Adultez media (41-60)'', ''Adulto mayor (60+)'']"

definition grupo_edad :: "real option \<Rightarrow> string option" where
  "grupo_edad edad = cut [0, 12, 18, 28, 40, 60, 100] labels_edad True edad"

text \<open>
  For comparison only, the binning as the specification words it: the same edges with
  left-inclusive intervals, an age of 12 falling in the interval that starts at 12.
\<close>

definition spec_age_group_left_inclusive :: "real \<Rightarrow> string option" where
  "spec_age_group_left_inclusive a =
     (if a < 0 \<or> 100 < a then None
      else if a < 12 then Some (labels_edad ! 0)
      else if a < 18 then Some (labels_edad ! 1)
      else if a < 28 then Some (labels_edad ! 2)
      else if a < 40 then Some (labels_edad ! 3)
      else if a < 60 then Some (labels_edad ! 4)
      else Some (labels_edad ! 5))"

subsection \<open>Yes/no columns as numbers\<close>

text \<open>
  Python's \<^verbatim>\<open>str.strip()\<close> and \<^verbatim>\<open>str.upper()\<close> on strings of code points below 256.
  The white space of \<^verbatim>\<open>strip\<close> is tab to carriage return, the separators 28 to 31, the
  space, and the code points 133 and 160. \<^verbatim>\<open>upper\<close> maps a to z and the accented small
  letters 224 to 254 (the division sign 247 apart) 32 places down (on these code points
  that is clearing the bit of value 32), and the sharp s to SS. The
  two letters whose capital lies above 255 (181 and 255) are left as they are: neither
  they nor their capitals occur in the spellings the code looks for.
\<close>

definition is_space :: "char \<Rightarrow> bool" where
  "is_space ch =
     (let n = (of_char ch :: nat)
      in (9 \<le> n \<and> n \<le> 13) \<or> (28 \<le> n \<and> n \<le> 32) \<or> n = 133 \<or> n = 160)"

definition py_strip :: "string \<Rightarrow> string" where
  "py_strip s = rev (dropWhile is_space (rev (dropWhile is_space s)))"

fun minus_32 :: "char \<Rightarrow> char" where
  "minus_32 (Char b0 b1 b2 b3 b4 b5 b6 b7) = Char b0 b1 b2 b3 b4 False b6 b7"

definition upper_char :: "char \<Rightarrow> string" where
  "upper_char ch =
     (let n = (of_char ch :: nat)
      in if 97 \<le> n \<and> n \<le> 122 then [minus_32 ch]
         else if n = 223 then ''SS''
         else if 224 \<le> n \<and> n \<le> 254 \<and> n \<noteq> 247 then [minus_32 ch]
         else [ch])"

definition py_upper :: "string \<Rightarrow> string" where
  "py_upper s = concat (map upper_char s)"

text \<open>The accented spelling of yes: S followed by code point 205.\<close>

definition SI_acento :: string where
  "SI_acento = [CHR ''S'', CHR 0xCD]"

text \<open>
  Lines 339 to 350, for one column. Only an object column is looked at. The test is that
  every value present, written as a string, stripped and put in capitals, is one of the
  three spellings; a number is written with digits and fails it. The new column holds 1
  for the two spellings of yes and 0 for no; a missing value is written \<^verbatim>\<open>nan\<close>, finds
  no entry in the mapping and is filled with 0. The result is \<open>None\<close> when no column is
  derived.
\<close>

definition si_no_spelling :: "'f cell \<Rightarrow> string option" where
  "si_no_spelling v = (case v of Str s \<Rightarrow> Some (py_upper (py_strip s)) | _ \<Rightarrow> None)"

definition convertir_si_no :: "'f::{zero, one} column \<Rightarrow> 'f column option" where
  "convertir_si_no c =
     (case c of
        Object xs \<Rightarrow>
          if list_all (\<lambda>v. v = NA \<or> si_no_spelling v \<in> {Some ''SI'', Some ''NO'', Some SI_acento}) xs
          then Some (Float64 (map (\<lambda>v. if si_no_spelling v \<in> {Some ''SI'', Some SI_acento}
                                        then Some 1 else Some 0) xs))
          else None
      | _ \<Rightarrow> None)"

section \<open>Weighted aggregation\<close>

datatype error = KeyError | TypeError | ZeroDivisionError | ValueError

text \<open>The values of a column as Python objects, whatever its dtype.\<close>

fun as_cells :: "'f column \<Rightarrow> 'f cell list" where
  "as_cells (Float64 xs) = map (\<lambda>v. case v of None \<Rightarrow> NA | Some r \<Rightarrow> Num r) xs"
| "as_cells (Object xs) = xs"
| "as_cells (Category xs) = map (\<lambda>v. case v of None \<Rightarrow> NA | Some s \<Rightarrow> Str s) xs"

text \<open>\<^verbatim>\<open>Series.isin(values)\<close> and \<^verbatim>\<open>Series == value\<close>: one truth value per row.\<close>

definition isin :: "'f column \<Rightarrow> 'f cell list \<Rightarrow> bool list" where
  "isin c vals = map (\<lambda>v. v \<in> set vals) (as_cells c)"

definition eq_value :: "'f column \<Rightarrow> string \<Rightarrow> bool list" where
  "eq_value c val = map (\<lambda>v. v = Str val) (as_cells c)"

text \<open>\<^verbatim>\<open>df[mask]\<close>: the rows where the mask is true, in every column.\<close>

definition select :: "bool list \<Rightarrow> 'a list \<Rightarrow> 'a list" where
  "select keep xs = map fst (filter snd (zip xs keep))"

fun select_col :: "bool list \<Rightarrow> 'f column \<Rightarrow> 'f column" where
  "select_col keep (Float64 xs) = Float64 (select keep xs)"
| "select_col keep (Object xs) = Object (select keep xs)"
| "select_col keep (Category xs) = Category (select keep xs)"

definition select_rows :: "'f dataframe \<Rightarrow> bool list \<Rightarrow> 'f dataframe" where
  "select_rows df keep =
     \<lparr>nrows = length (filter (\<lambda>b. b) keep),
      cols = map (\<lambda>nc. (fst nc, select_col keep (snd nc))) (cols df)\<rparr>"

text \<open>\<^verbatim>\<open>df.empty\<close>: no row or no column.\<close>

definition empty_df :: "'f dataframe \<Rightarrow> bool" where
  "empty_df df \<longleftrightarrow> nrows df = 0 \<or> cols df = []"

text \<open>
  \<^verbatim>\<open>Series.sum()\<close> skips missing values. The product of a truth value and a weight is
  the weight or 0, and missing when the weight is. The quotient of two float64 numbers
  does not raise: by zero it is \<^verbatim>\<open>NaN\<close> or an infinity, \<open>None\<close> here.
\<close>

definition sum_skipna :: "real option list \<Rightarrow> real" where
  "sum_skipna xs = sum_list (map (\<lambda>v. case v of None \<Rightarrow> 0 | Some r \<Rightarrow> r) xs)"

definition mul_bool :: "bool \<Rightarrow> real option \<Rightarrow> real option" where
  "mul_bool b w = (case w of None \<Rightarrow> None | Some r \<Rightarrow> Some (if b then r else 0))"

definition fdiv :: "real \<Rightarrow> real \<Rightarrow> real option" where
  "fdiv a b = (if b = 0 then None else Some (a / b))"

text \<open>
  \<^verbatim>\<open>weighted_percentage(df, column, value='SI')\<close>. The weight column is float64 after the
  derivation stage; arithmetic on a weight column of another dtype is outside the model
  and shown as \<open>TypeError\<close>.
\<close>

definition weighted_percentage :: "real dataframe \<Rightarrow> string \<Rightarrow> string \<Rightarrow> error + real option" where
  "weighted_percentage df column val =
     (case get_col df column of
        None \<Rightarrow> Inl KeyError
      | Some c \<Rightarrow>
          (let df_valid = select_rows df (isin c [Str ''SI'', Str ''NO''])
           in if empty_df df_valid then Inr (Some 0)
              else (case get_col df_valid column of
                      None \<Rightarrow> Inl KeyError
                    | Some cv \<Rightarrow>
                        (case get_col df_valid ''FACTOR DE EXPANSION'' of
                           None \<Rightarrow> Inl KeyError
                         | Some (Float64 ws) \<Rightarrow>
                             Inr (fdiv (sum_skipna (map2 mul_bool (eq_value cv val) ws))
                                       (sum_skipna ws))
                         | Some _ \<Rightarrow> Inl TypeError))))"

text \<open>
  \<^verbatim>\<open>np.average(a, weights=w)\<close> on two one-dimensional arrays: it raises when their
  lengths differ and when the weights sum to zero.
\<close>

definition np_average :: "real list \<Rightarrow> real list \<Rightarrow> error + real" where
  "np_average a w =
     (if length a \<noteq> length w then Inl TypeError
      else if sum_list w = 0 then Inl ZeroDivisionError
      else Inr (sum_list (map2 (*) a w) / sum_list w))"

fun dropna :: "real option list \<Rightarrow> real list" where
  "dropna [] = []"
| "dropna (None # xs) = dropna xs"
| "dropna (Some r # xs) = r # dropna xs"

text \<open>
  Lines 1300 to 1303: the weighted mean of the cultural index in one group, from the index
  column and the weight column of the group's rows. Each column drops its own missing
  values; with no index value left the result is 0.
\<close>

definition avg_participation :: "real option list \<Rightarrow> real option list \<Rightarrow> error + real" where
  "avg_participation indice_cultural factor_expansion =
     (if dropna indice_cultural \<noteq> []
      then np_average (dropna indice_cultural) (dropna factor_expansion)
      else Inr 0)"

section \<open>Categorical association\<close>

subsection \<open>Contingency tables\<close>

text \<open>
  \<^verbatim>\<open>pd.crosstab(x, y)\<close> and \<^verbatim>\<open>pd.crosstab(x, y, weights, aggfunc='sum')\<close>. The rows of
  the table are the values of \<open>x\<close>, the columns the values of \<open>y\<close>, over the rows where
  both are present. Without weights a cell is the number of rows of its pair, 0 when there
  is none. With weights a cell is the sum of the weights of its rows (missing weights
  skipped), and pandas leaves the cell of a pair that no row holds missing: the pivot is
  not given a fill value. pandas sorts the labels; the order kept here is another one, and
  nothing computed from the table below depends on it.
\<close>

definition crosstab_cell ::
    "real cell list \<Rightarrow> real cell list \<Rightarrow> real option list option \<Rightarrow> real cell \<Rightarrow> real cell \<Rightarrow> real option" where
  "crosstab_cell x y weights a b =
     (case weights of
        None \<Rightarrow> Some (real (length (filter (\<lambda>k. k = (a, b)) (zip x y))))
      | Some ws \<Rightarrow>
          (let g = map snd (filter (\<lambda>kw. fst kw = (a, b)) (zip (zip x y) ws))
           in if g = [] then None else Some (sum_skipna g)))"

definition crosstab ::
    "real cell list \<Rightarrow> real cell list \<Rightarrow> real option list option \<Rightarrow> real option list list" where
  "crosstab x y weights =
     (let keys = filter (\<lambda>k. fst k \<noteq> NA \<and> snd k \<noteq> NA) (zip x y);
          row_labels = remdups (map fst keys);
          col_labels = remdups (map snd keys)
      in map (\<lambda>a. map (\<lambda>b. crosstab_cell x y weights a b) col_labels) row_labels)"

text \<open>\<^verbatim>\<open>shape\<close>, \<^verbatim>\<open>empty\<close> and \<^verbatim>\<open>sum().sum()\<close> of a table given as the list of its rows.\<close>

definition n_rows :: "real option list list \<Rightarrow> nat" where
  "n_rows t = length t"

definition n_cols :: "real option list list \<Rightarrow> nat" where
  "n_cols t = (case t of [] \<Rightarrow> 0 | r # _ \<Rightarrow> length r)"

definition table_empty :: "real option list list \<Rightarrow> bool" where
  "table_empty t \<longleftrightarrow> n_rows t = 0 \<or> n_cols t = 0"

definition table_sum :: "real option list list \<Rightarrow> real" where
  "table_sum t = sum_skipna (concat t)"

subsection \<open>The chi-square statistic\<close>

text \<open>
  \<^verbatim>\<open>scipy.stats.chi2_contingency(observed)\<close>, first component of the result, on a table
  of two dimensions. It raises on a negative entry, on a table without entries and on an
  expected frequency equal to 0. The expected frequencies are row sum times column sum
  over the total, computed with sums that do not skip missing values: one missing entry
  makes all of them missing, none compares equal to 0, and the statistic is missing,
  unless there is no degree of freedom, where it is 0 without a look at the entries. With
  one degree of freedom the observed entries are first moved towards the expected ones by
  at most 0.5 (Yates).
\<close>

definition expected_freq :: "real list list \<Rightarrow> real list list" where
  "expected_freq obs =
     (let total = sum_list (concat obs);
          row_sums = map sum_list obs;
          col_sums = map (\<lambda>j. sum_list (map (\<lambda>r. r ! j) obs)) [0..<length (hd obs)]
      in map (\<lambda>rs. map (\<lambda>cs. rs * cs / total) col_sums) row_sums)"

definition yates :: "real \<Rightarrow> real \<Rightarrow> real" where
  "yates o_ij e_ij = o_ij + min (1 / 2) \<bar>e_ij - o_ij\<bar> * sgn (e_ij - o_ij)"

definition pearson :: "real list \<Rightarrow> real list \<Rightarrow> real" where
  "pearson os es = sum_list (map2 (\<lambda>o_ij e_ij. (o_ij - e_ij)\<^sup>2 / e_ij) os es)"

definition chi2_contingency :: "real option list list \<Rightarrow> error + real option" where
  "chi2_contingency observed =
     (let entries = concat observed;
          dof = int (length entries) - int (n_rows observed + n_cols observed) + 2 - 1
      in if list_ex (\<lambda>v. case v of None \<Rightarrow> False | Some r \<Rightarrow> r < 0) entries then Inl ValueError
         else if entries = [] then Inl ValueError
         else if list_ex (\<lambda>v. v = None) entries \<or> table_sum observed = 0
           then (if dof = 0 then Inr (Some 0) else Inr None)
         else
           (let obs = map dropna observed;
                expected = expected_freq obs
            in if list_ex (\<lambda>e. e = 0) (concat expected) then Inl ValueError
               else if dof = 0 then Inr (Some 0)
               else if dof = 1
                 then Inr (Some (pearson (map2 yates (concat obs) (concat expected))
                                         (concat expected)))
               else Inr (Some (pearson (concat obs) (concat expected)))))"

subsection \<open>\<^verbatim>\<open>cramers_v\<close>\<close>

text \<open>
  The numbers of a weight column, when it holds numbers only: \<open>None\<close> on a column where
  summing the weights raises.
\<close>

fun numeric_weights :: "real column \<Rightarrow> real option list option" where
  "numeric_weights (Float64 xs) = Some xs"
| "numeric_weights (Object xs) =
     (if list_all (\<lambda>v. case v of Str s \<Rightarrow> False | _ \<Rightarrow> True) xs
      then Some (map (\<lambda>v. case v of Num r \<Rightarrow> Some r | _ \<Rightarrow> None) xs) else None)"
| "numeric_weights (Category xs) = None"

text \<open>
  \<^verbatim>\<open>cramers_v(x, y, weights=None)\<close>. The result is a float64 number, \<open>None\<close> when it is
  \<^verbatim>\<open>NaN\<close>. The whole body runs in a \<^verbatim>\<open>try\<close> whose handler returns 0.0, so every raise
  below is the value 0. \<^verbatim>\<open>np.sqrt\<close> of a missing or negative number is \<^verbatim>\<open>NaN\<close>, and
  \<^verbatim>\<open>min(v, 1.0)\<close> is 1.0 when \<^verbatim>\<open>1.0 < v\<close> and \<open>v\<close> otherwise, so that a \<^verbatim>\<open>NaN\<close> stays.
\<close>

definition cramers_v_table :: "real option list list \<Rightarrow> real option" where
  "cramers_v_table t =
     (if table_empty t \<or> table_sum t = 0 then Some 0
      else
        (case chi2_contingency t of
           Inl e \<Rightarrow> Some 0
         | Inr chi2 \<Rightarrow>
             (let n = table_sum t;
                  min_dim = min (int (n_rows t) - 1) (int (n_cols t) - 1)
              in if min_dim = 0 then Some 0
                 else
                   (case chi2 of
                      None \<Rightarrow> None
                    | Some c \<Rightarrow>
                        (let q = c / (n * real_of_int min_dim)
                         in if q < 0 then None
                            else if 1 < sqrt q then Some 1 else Some (sqrt q))))))"

definition cramers_v :: "real cell list \<Rightarrow> real cell list \<Rightarrow> real column option \<Rightarrow> real option" where
  "cramers_v x y weights =
     (case weights of
        None \<Rightarrow> cramers_v_table (crosstab x y None)
      | Some wc \<Rightarrow>
          (case numeric_weights wc of
             None \<Rightarrow> Some 0
           | Some ws \<Rightarrow> cramers_v_table (crosstab x y (Some ws))))"

subsection \<open>\<^verbatim>\<open>calculate_association_matrix\<close>\<close>

text \<open>\<^verbatim>\<open>np.zeros((n, n))\<close> and the assignment \<^verbatim>\<open>m[i, j] = v\<close>, with \<open>i\<close> and \<open>j\<close> in range.\<close>

definition zeros :: "nat \<Rightarrow> real option list list" where
  "zeros n = replicate n (replicate n (Some 0))"

definition set_entry :: "real option list list \<Rightarrow> nat \<Rightarrow> nat \<Rightarrow> real option \<Rightarrow> real option list list" where
  "set_entry m i j v = m[i := (m ! i)[j := v]]"

definition notna :: "real column \<Rightarrow> bool list" where
  "notna c = map (\<lambda>v. v \<noteq> NA) (as_cells c)"

text \<open>
  The body of the branch \<^verbatim>\<open>elif i < j\<close> for one pair of variables: the rows where both
  variables, and the weight if one is named, are present; with at least one such row the
  value of \<^verbatim>\<open>cramers_v\<close> on them, and otherwise nothing to store. Naming a column that
  the frame does not have raises.
\<close>

definition pair_association ::
    "real dataframe \<Rightarrow> string \<Rightarrow> string \<Rightarrow> string option \<Rightarrow> error + real option option" where
  "pair_association df var1 var2 weights =
     (case get_col df var1 of
        None \<Rightarrow> Inl KeyError
      | Some c1 \<Rightarrow>
          (case get_col df var2 of
             None \<Rightarrow> Inl KeyError
           | Some c2 \<Rightarrow>
               (case weights of
                  None \<Rightarrow>
                    (let valid_mask = map2 (\<and>) (notna c1) (notna c2)
                     in if length (filter (\<lambda>b. b) valid_mask) > 0
                        then Inr (Some (cramers_v (select valid_mask (as_cells c1))
                                                  (select valid_mask (as_cells c2)) None))
                        else Inr None)
                | Some wname \<Rightarrow>
                    (case get_col df wname of
                       None \<Rightarrow> Inl KeyError
                     | Some wc \<Rightarrow>
                         (let valid_mask = map2 (\<and>) (map2 (\<and>) (notna c1) (notna c2)) (notna wc)
                          in if length (filter (\<lambda>b. b) valid_mask) > 0
                             then Inr (Some (cramers_v (select valid_mask (as_cells c1))
                                                       (select valid_mask (as_cells c2))
                                                       (Some (select_col valid_mask wc))))
                             else Inr None)))))"

text \<open>The two loops over the indices of the variables; a raise ends them.\<close>

fun inner_loop ::
    "real dataframe \<Rightarrow> string list \<Rightarrow> string option \<Rightarrow> nat \<Rightarrow> nat list \<Rightarrow> real option list list
      \<Rightarrow> error + real option list list" where
  "inner_loop df variables weights i [] m = Inr m"
| "inner_loop df variables weights i (j # js) m =
     (if i = j then inner_loop df variables weights i js (set_entry m i j (Some 1))
      else if i < j then
        (case pair_association df (variables ! i) (variables ! j) weights of
           Inl e \<Rightarrow> Inl e
         | Inr None \<Rightarrow> inner_loop df variables weights i js m
         | Inr (Some assoc_value) \<Rightarrow>
             inner_loop df variables weights i js
               (set_entry (set_entry m i j assoc_value) j i assoc_value))
      else inner_loop df variables weights i js m)"

fun outer_loop ::
    "real dataframe \<Rightarrow> string list \<Rightarrow> string option \<Rightarrow> nat list \<Rightarrow> real option list list
      \<Rightarrow> error + real option list list" where
  "outer_loop df variables weights [] m = Inr m"
| "outer_loop df variables weights (i # is) m =
     (case inner_loop df variables weights i [0..<length variables] m of
        Inl e \<Rightarrow> Inl e
      | Inr m' \<Rightarrow> outer_loop df variables weights is m')"

definition calculate_association_matrix ::
    "real dataframe \<Rightarrow> string list \<Rightarrow> string option \<Rightarrow> error + real option list list" where
  "calculate_association_matrix df variables weights =
     outer_loop df variables weights [0..<length variables] (zeros (length variables))"

subsection \<open>Notions used to state the result of the loops\<close>

text \<open>A matrix of \<open>n\<close> rows of \<open>n\<close> entries.\<close>

definition square :: "nat \<Rightarrow> real option list list \<Rightarrow> bool" where
  "square n m \<longleftrightarrow> length m = n \<and> list_all (\<lambda>r. length r = n) m"

text \<open>
  What the branch \<^verbatim>\<open>elif i < j\<close> leaves in the entry of a pair: the value of
  \<^verbatim>\<open>cramers_v\<close>, or the 0.0 the matrix was created with when no row is valid.
\<close>

definition pair_value :: "real dataframe \<Rightarrow> string list \<Rightarrow> string option \<Rightarrow> nat \<Rightarrow> nat \<Rightarrow> real option" where
  "pair_value df variables weights i j =
     (case pair_association df (variables ! i) (variables ! j) weights of
        Inr (Some v) \<Rightarrow> v
      | _ \<Rightarrow> Some 0)"

text \<open>The entry at \<open>(a, b)\<close> once the iterations \<open>(i, j)\<close> in \<open>visited\<close> have run.\<close>

definition entry_after ::
    "real dataframe \<Rightarrow> string list \<Rightarrow> string option \<Rightarrow> (nat \<times> nat) set \<Rightarrow> nat \<Rightarrow> nat \<Rightarrow> real option" where
  "entry_after df variables weights visited a b =
     (if a = b then (if (a, a) \<in> visited then Some 1 else Some 0)
      else if (min a b, max a b) \<in> visited
        then pair_value df variables weights (min a b) (max a b)
      else Some 0)"

definition matrix_after ::
    "real dataframe \<Rightarrow> string list \<Rightarrow> string option \<Rightarrow> (nat \<times> nat) set \<Rightarrow> real option list list \<Rightarrow> bool" where
  "matrix_after df variables weights visited m \<longleftrightarrow>
     square (length variables) m \<and>
     (\<forall>a < length variables. \<forall>b < length variables.
        m ! a ! b = entry_after df variables weights visited a b)"

section \<open>Properties of the cleaning stage\<close>

lemma imputar_cols:
  "fst (imputar cs) =
     map (\<lambda>nc. (fst nc, if is_categorical (snd nc) \<and> isnull_sum (snd nc) > 0
                         then fillna_no_informacion (snd nc) else snd nc)) cs"
  by (induction cs rule: imputar.induct) (auto split: prod.splits)

lemma imputar_names:
  "snd (imputar cs) =
     map fst (filter (\<lambda>nc. is_categorical (snd nc) \<and> isnull_sum (snd nc) > 0) cs)"
  by (induction cs rule: imputar.induct) (auto split: prod.splits)

lemma isnull_sum_fillna:
  "is_categorical c \<Longrightarrow> isnull_sum (fillna_no_informacion c) = 0"
  by (cases c) (auto simp: filter_empty_conv)

lemma is_categorical_fillna:
  "is_categorical (fillna_no_informacion c) = is_categorical c"
  by (cases c) auto

lemma kept_not_exceeding:
  assumes "nc \<in> set (cols (if columnas_a_eliminar df u \<noteq> [] then drop_columns df (columnas_a_eliminar df u) else df))"
  shows "\<not> gt_nan (porcentaje_na df (snd nc)) (u * 100)"
proof
  assume g: "gt_nan (porcentaje_na df (snd nc)) (u * 100)"
  from assms have m: "nc \<in> set (cols df)"
    by (auto simp: drop_columns_def split: if_splits)
  with g have e: "fst nc \<in> set (columnas_a_eliminar df u)"
    by (auto simp: columnas_a_eliminar_def)
  then have "columnas_a_eliminar df u \<noteq> []" by auto
  with assms e show False by (auto simp: drop_columns_def)
qed

lemma limpiar_fst_cols:
  "cols (fst (limpiar_datos_categoricos df u)) =
     fst (imputar (cols (if columnas_a_eliminar df u \<noteq> [] then drop_columns df (columnas_a_eliminar df u) else df)))"
  by (simp add: limpiar_datos_categoricos_def Let_def split: prod.splits)

lemma limpiar_fst_nrows:
  "nrows (fst (limpiar_datos_categoricos df u)) = nrows df"
  by (simp add: limpiar_datos_categoricos_def Let_def drop_columns_def split: prod.splits)

lemma limpiar_eliminadas:
  "columnas_eliminadas (snd (limpiar_datos_categoricos df u)) = columnas_a_eliminar df u"
  by (simp add: limpiar_datos_categoricos_def Let_def split: prod.splits)

lemma limpiar_imputadas:
  "columnas_imputadas_categoricas (snd (limpiar_datos_categoricos df u)) =
     snd (imputar (cols (if columnas_a_eliminar df u \<noteq> [] then drop_columns df (columnas_a_eliminar df u) else df)))"
  by (simp add: limpiar_datos_categoricos_def Let_def split: prod.splits)

lemma porcentaje_na_nrows:
  "nrows df' = nrows df \<Longrightarrow> porcentaje_na df' c = porcentaje_na df c"
  by (simp add: porcentaje_na_def)

lemma cleaned_not_exceeding:
  assumes "nc \<in> set (cols (fst (limpiar_datos_categoricos df u)))"
  shows "\<not> gt_nan (porcentaje_na (fst (limpiar_datos_categoricos df u)) (snd nc)) (u * 100)"
proof -
  let ?df1 = "if columnas_a_eliminar df u \<noteq> [] then drop_columns df (columnas_a_eliminar df u) else df"
  from assms obtain mc where mc: "mc \<in> set (cols ?df1)"
    and nc: "nc = (fst mc, if is_categorical (snd mc) \<and> isnull_sum (snd mc) > 0
                         then fillna_no_informacion (snd mc) else snd mc)"
    unfolding limpiar_fst_cols imputar_cols by auto
  have k: "\<not> gt_nan (porcentaje_na df (snd mc)) (u * 100)"
    using kept_not_exceeding [OF mc] .
  have p: "porcentaje_na (fst (limpiar_datos_categoricos df u)) (snd nc) = porcentaje_na df (snd nc)"
    by (rule porcentaje_na_nrows) (rule limpiar_fst_nrows)
  show ?thesis
  proof (cases "is_categorical (snd mc) \<and> isnull_sum (snd mc) > 0")
    case False
    with nc k p show ?thesis by simp
  next
    case True
    then have z: "isnull_sum (snd nc) = 0" using nc by (simp add: isnull_sum_fillna)
    show ?thesis
    proof (cases "nrows df = 0")
      case True
      then show ?thesis unfolding p by (simp add: porcentaje_na_def gt_nan_def)
    next
      case False
      with k have "real (isnull_sum (snd mc)) / real (nrows df) * 100 \<le> u * 100"
        by (simp add: porcentaje_na_def gt_nan_def)
      moreover have "0 \<le> real (isnull_sum (snd mc)) / real (nrows df) * 100" by simp
      ultimately have "0 \<le> u * 100" by linarith
      with False z show ?thesis unfolding p by (simp add: porcentaje_na_def gt_nan_def)
    qed
  qed
qed

lemma cleaned_no_eliminar:
  "columnas_a_eliminar (fst (limpiar_datos_categoricos df u)) u = []"
  unfolding columnas_a_eliminar_def using cleaned_not_exceeding [of _ df u]
  by (auto simp: filter_empty_conv)

lemma cleaned_no_missing:
  assumes "nc \<in> set (cols (fst (limpiar_datos_categoricos df u)))"
  shows "\<not> (is_categorical (snd nc) \<and> isnull_sum (snd nc) > 0)"
  using assms unfolding limpiar_fst_cols imputar_cols
  by (auto simp: isnull_sum_fillna is_categorical_fillna)

lemma imputar_nothing:
  "\<forall>nc\<in>set cs. \<not> (is_categorical (snd nc) \<and> isnull_sum (snd nc) > 0) \<Longrightarrow>
     imputar cs = (cs, [])"
  by (induction cs rule: imputar.induct) (auto split: prod.splits)

text \<open>
  Claim C4. Cleaning is idempotent: cleaning the cleaned frame again with the same
  threshold returns the same frame, and the second report lists no dropped column and no
  imputed column. This holds for every frame and every threshold, negative ones included.
\<close>

theorem limpiar_idempotent:
  "fst (limpiar_datos_categoricos (fst (limpiar_datos_categoricos df umbral_na)) umbral_na)
     = fst (limpiar_datos_categoricos df umbral_na)
   \<and> columnas_eliminadas (snd (limpiar_datos_categoricos (fst (limpiar_datos_categoricos df umbral_na)) umbral_na)) = []
   \<and> columnas_imputadas_categoricas (snd (limpiar_datos_categoricos (fst (limpiar_datos_categoricos df umbral_na)) umbral_na)) = []"
proof -
  let ?c = "fst (limpiar_datos_categoricos df umbral_na)"
  have e: "columnas_a_eliminar ?c umbral_na = []" by (rule cleaned_no_eliminar)
  have i: "imputar (cols ?c) = (cols ?c, [])"
    by (rule imputar_nothing) (use cleaned_no_missing [of _ df umbral_na] in blast)
  show ?thesis
    using e i by (simp add: limpiar_datos_categoricos_def [of ?c] Let_def)
qed


lemma isnull_sum_le: "isnull_sum c \<le> col_length c"
  by (cases c) auto

lemma wf_column_length:
  "wf_dataframe df \<Longrightarrow> nc \<in> set (cols df) \<Longrightarrow> col_length (snd nc) = nrows df"
  by (auto simp: wf_dataframe_def list_all_iff)

lemma eliminar_by_fraction:
  "columnas_a_eliminar df u =
     map fst (filter (\<lambda>nc. 0 < nrows df \<and> u < real (isnull_sum (snd nc)) / real (nrows df)) (cols df))"
proof -
  have "gt_nan (porcentaje_na df c) (u * 100) \<longleftrightarrow>
          0 < nrows df \<and> u < real (isnull_sum c) / real (nrows df)" for c
    by (auto simp: gt_nan_def porcentaje_na_def field_simps)
  then show ?thesis by (simp add: columnas_a_eliminar_def)
qed

text \<open>
  Claim C5, as amended. The dropped-column list holds exactly the columns whose fraction
  of missing values exceeds the threshold, in the order of the columns in the frame: the
  code filters with a boolean mask and never sorts by the fraction.
\<close>

theorem eliminadas_original_order:
  "columnas_eliminadas (snd (limpiar_datos_categoricos df umbral_na)) =
     map fst (filter (\<lambda>nc. 0 < nrows df \<and> umbral_na < real (isnull_sum (snd nc)) / real (nrows df))
                     (cols df))"
  by (simp add: limpiar_eliminadas eliminar_by_fraction)

text \<open>
  Claim C5 as stated fails: with threshold 0.30, column A (half of its values missing) is
  listed before column B (all values missing), so the list is not in descending order of
  the missing fraction.
\<close>

theorem eliminadas_not_by_fraction:
  "columnas_eliminadas (snd (limpiar_datos_categoricos
       \<lparr>nrows = 2, cols = [(''A'', Object [NA, Str ''x'']), (''B'', Object [NA, NA])]\<rparr> (3 / 10)))
     = [''A'', ''B'']
   \<and> porcentaje_na \<lparr>nrows = 2, cols = [(''A'', Object [NA, Str ''x'']), (''B'', Object [NA, NA])]\<rparr>
        (Object [NA, Str ''x'']) = Some 50
   \<and> porcentaje_na \<lparr>nrows = 2, cols = [(''A'', Object [NA, Str ''x'']), (''B'', Object [NA, NA])]\<rparr>
        (Object [NA, NA]) = Some 100"
  by (simp add: limpiar_eliminadas columnas_a_eliminar_def porcentaje_na_def gt_nan_def)

lemma cols_after_drop:
  "cols (if columnas_a_eliminar df u \<noteq> [] then drop_columns df (columnas_a_eliminar df u) else df)
     = filter (\<lambda>nc. fst nc \<notin> set (columnas_a_eliminar df u)) (cols df)"
  by (auto simp: drop_columns_def)

lemma listed_iff_exceeding:
  assumes "wf_dataframe df" and "nc \<in> set (cols df)"
  shows "fst nc \<in> set (columnas_a_eliminar df u) \<longleftrightarrow> gt_nan (porcentaje_na df (snd nc)) (u * 100)"
proof
  assume "fst nc \<in> set (columnas_a_eliminar df u)"
  then obtain mc where mc: "mc \<in> set (cols df)" "fst mc = fst nc"
    and g: "gt_nan (porcentaje_na df (snd mc)) (u * 100)"
    by (auto simp: columnas_a_eliminar_def)
  from assms(1) have "distinct (map fst (cols df))" by (simp add: wf_dataframe_def)
  with mc assms(2) have "mc = nc" by (metis eq_key_imp_eq_value prod.collapse)
  with g show "gt_nan (porcentaje_na df (snd nc)) (u * 100)" by simp
next
  assume "gt_nan (porcentaje_na df (snd nc)) (u * 100)"
  with assms(2) show "fst nc \<in> set (columnas_a_eliminar df u)"
    by (auto simp: columnas_a_eliminar_def)
qed

lemma kept_columns:
  assumes "wf_dataframe df"
  shows "cols (if columnas_a_eliminar df u \<noteq> [] then drop_columns df (columnas_a_eliminar df u) else df)
     = filter (\<lambda>nc. \<not> gt_nan (porcentaje_na df (snd nc)) (u * 100)) (cols df)"
  unfolding cols_after_drop
  by (rule filter_cong) (simp_all add: listed_iff_exceeding [OF assms])

lemma exceeding_iff_fraction:
  "gt_nan (porcentaje_na df c) (u * 100) \<longleftrightarrow> 0 < nrows df \<and> u < real (isnull_sum c) / real (nrows df)"
  by (auto simp: gt_nan_def porcentaje_na_def field_simps)

lemma limpiar_kept_names:
  assumes "wf_dataframe df"
  shows "map fst (cols (fst (limpiar_datos_categoricos df u))) =
     map fst (filter (\<lambda>nc. \<not> (0 < nrows df \<and> u < real (isnull_sum (snd nc)) / real (nrows df)))
                     (cols df))"
  by (simp add: limpiar_fst_cols imputar_cols kept_columns [OF assms] comp_def
      exceeding_iff_fraction)

text \<open>
  Claim C9. The comparison with the threshold is strict, the percentage of missing values
  against the threshold times 100: for every threshold the report lists the columns whose
  fraction of missing values is above it, and the frame returned holds the others, in
  their order. With threshold 1 no column is listed and every column stays in the frame,
  whatever its share of missing values. With threshold 0 the columns listed are exactly
  those with at least one missing value, and the frame returned is the frame without them.
  A column whose missing percentage equals the threshold times 100 is not listed and stays
  in the frame.
\<close>

theorem umbral_strict:
  assumes "wf_dataframe df"
  shows "columnas_eliminadas (snd (limpiar_datos_categoricos df umbral_na)) =
           map fst (filter (\<lambda>nc. 0 < nrows df \<and> umbral_na < real (isnull_sum (snd nc)) / real (nrows df))
                           (cols df))
       \<and> map fst (cols (fst (limpiar_datos_categoricos df umbral_na))) =
           map fst (filter (\<lambda>nc. \<not> (0 < nrows df \<and> umbral_na < real (isnull_sum (snd nc)) / real (nrows df)))
                           (cols df))
       \<and> columnas_eliminadas (snd (limpiar_datos_categoricos df 1)) = []
       \<and> map fst (cols (fst (limpiar_datos_categoricos df 1))) = map fst (cols df)
       \<and> columnas_eliminadas (snd (limpiar_datos_categoricos df 0)) =
           map fst (filter (\<lambda>nc. 0 < isnull_sum (snd nc)) (cols df))
       \<and> cols (fst (limpiar_datos_categoricos df 0)) =
           filter (\<lambda>nc. isnull_sum (snd nc) = 0) (cols df)
       \<and> (\<forall>nc \<in> set (cols df).
            porcentaje_na df (snd nc) = Some (umbral_na * 100) \<longrightarrow>
            fst nc \<notin> set (columnas_eliminadas (snd (limpiar_datos_categoricos df umbral_na)))
            \<and> fst nc \<in> set (map fst (cols (fst (limpiar_datos_categoricos df umbral_na)))))"
proof (intro conjI ballI impI)
  have le: "isnull_sum (snd nc) \<le> nrows df" if "nc \<in> set (cols df)" for nc
    using isnull_sum_le [of "snd nc"] wf_column_length [OF assms that] by simp
  show "columnas_eliminadas (snd (limpiar_datos_categoricos df umbral_na)) =
           map fst (filter (\<lambda>nc. 0 < nrows df \<and> umbral_na < real (isnull_sum (snd nc)) / real (nrows df))
                           (cols df))"
    by (simp add: limpiar_eliminadas eliminar_by_fraction)
  show "map fst (cols (fst (limpiar_datos_categoricos df umbral_na))) =
           map fst (filter (\<lambda>nc. \<not> (0 < nrows df \<and> umbral_na < real (isnull_sum (snd nc)) / real (nrows df)))
                           (cols df))"
    by (rule limpiar_kept_names [OF assms])
  have one: "\<not> (0 < nrows df \<and> 1 < real (isnull_sum (snd nc)) / real (nrows df))"
    if "nc \<in> set (cols df)" for nc
    using le [OF that] by (auto simp: field_simps)
  then show "columnas_eliminadas (snd (limpiar_datos_categoricos df 1)) = []"
    by (simp add: limpiar_eliminadas eliminar_by_fraction filter_empty_conv)
  have "filter (\<lambda>nc. \<not> (0 < nrows df \<and> 1 < real (isnull_sum (snd nc)) / real (nrows df))) (cols df)
          = cols df"
    using one by (simp add: filter_id_conv)
  then show "map fst (cols (fst (limpiar_datos_categoricos df 1))) = map fst (cols df)"
    by (simp add: limpiar_kept_names [OF assms])
  have zero: "(0 < nrows df \<and> 0 < real (isnull_sum (snd nc)) / real (nrows df)) \<longleftrightarrow> 0 < isnull_sum (snd nc)"
    if "nc \<in> set (cols df)" for nc
    using le [OF that] by (auto simp: field_simps)
  then have "filter (\<lambda>nc. 0 < nrows df \<and> 0 < real (isnull_sum (snd nc)) / real (nrows df)) (cols df)
           = filter (\<lambda>nc. 0 < isnull_sum (snd nc)) (cols df)"
    by (intro filter_cong) auto
  then show "columnas_eliminadas (snd (limpiar_datos_categoricos df 0)) =
           map fst (filter (\<lambda>nc. 0 < isnull_sum (snd nc)) (cols df))"
    by (simp add: limpiar_eliminadas eliminar_by_fraction)
  have k0: "gt_nan (porcentaje_na df c) 0 \<longleftrightarrow> 0 < nrows df \<and> 0 < real (isnull_sum c) / real (nrows df)"
    for c
    using exceeding_iff_fraction [of df c 0] by simp
  have k: "filter (\<lambda>nc. \<not> gt_nan (porcentaje_na df (snd nc)) (0 * 100)) (cols df)
           = filter (\<lambda>nc. isnull_sum (snd nc) = 0) (cols df)"
    by (rule filter_cong) (use zero in \<open>auto simp: k0\<close>)
  have "map (\<lambda>nc. (fst nc, if is_categorical (snd nc) \<and> isnull_sum (snd nc) > 0
                         then fillna_no_informacion (snd nc) else snd nc))
            (filter (\<lambda>nc. isnull_sum (snd nc) = 0) (cols df))
          = filter (\<lambda>nc. isnull_sum (snd nc) = 0) (cols df)"
    by (rule map_idI) auto
  then show "cols (fst (limpiar_datos_categoricos df 0)) =
           filter (\<lambda>nc. isnull_sum (snd nc) = 0) (cols df)"
    by (simp only: limpiar_fst_cols imputar_cols kept_columns [OF assms] k)
next
  fix nc
  assume m: "nc \<in> set (cols df)" and p: "porcentaje_na df (snd nc) = Some (umbral_na * 100)"
  from p have n: "\<not> gt_nan (porcentaje_na df (snd nc)) (umbral_na * 100)"
    by (simp add: gt_nan_def)
  with m show "fst nc \<notin> set (columnas_eliminadas (snd (limpiar_datos_categoricos df umbral_na)))"
    by (simp add: limpiar_eliminadas listed_iff_exceeding [OF assms])
  from n have "\<not> (0 < nrows df \<and> umbral_na < real (isnull_sum (snd nc)) / real (nrows df))"
    unfolding exceeding_iff_fraction .
  with m have "nc \<in> set (filter (\<lambda>nc. \<not> (0 < nrows df \<and> umbral_na < real (isnull_sum (snd nc)) / real (nrows df)))
                     (cols df))"
    by simp
  then have "fst nc \<in> fst ` set (filter (\<lambda>nc. \<not> (0 < nrows df \<and> umbral_na < real (isnull_sum (snd nc)) / real (nrows df)))
                     (cols df))"
    by (rule imageI)
  then show "fst nc \<in> set (map fst (cols (fst (limpiar_datos_categoricos df umbral_na))))"
    by (simp only: limpiar_kept_names [OF assms] set_map)
qed

text \<open>
  The frame of two rows with a half-missing object column A and a complete float column B:
  at threshold 1 nothing is listed and both columns stay, at threshold 0 column A is listed
  and the frame is left with B, and at threshold 0.5, where the percentage of A equals the
  threshold times 100, A is not listed and stays.
\<close>

theorem umbral_strict_witness:
  "wf_dataframe \<lparr>nrows = 2, cols = [(''A'', Object [NA, Str ''x'']), (''B'', Float64 [Some 1, Some (2 :: real)])]\<rparr>
   \<and> columnas_eliminadas (snd (limpiar_datos_categoricos
        \<lparr>nrows = 2, cols = [(''A'', Object [NA, Str ''x'']), (''B'', Float64 [Some 1, Some (2 :: real)])]\<rparr> 1)) = []
   \<and> map fst (cols (fst (limpiar_datos_categoricos
        \<lparr>nrows = 2, cols = [(''A'', Object [NA, Str ''x'']), (''B'', Float64 [Some 1, Some (2 :: real)])]\<rparr> 1)))
       = [''A'', ''B'']
   \<and> columnas_eliminadas (snd (limpiar_datos_categoricos
        \<lparr>nrows = 2, cols = [(''A'', Object [NA, Str ''x'']), (''B'', Float64 [Some 1, Some (2 :: real)])]\<rparr> 0)) = [''A'']
   \<and> cols (fst (limpiar_datos_categoricos
        \<lparr>nrows = 2, cols = [(''A'', Object [NA, Str ''x'']), (''B'', Float64 [Some 1, Some (2 :: real)])]\<rparr> 0))
       = [(''B'', Float64 [Some 1, Some 2])]
   \<and> porcentaje_na \<lparr>nrows = 2, cols = [(''A'', Object [NA, Str ''x'']), (''B'', Float64 [Some 1, Some (2 :: real)])]\<rparr>
        (Object [NA, Str ''x'']) = Some ((1 / 2) * 100)
   \<and> ''A'' \<notin> set (columnas_eliminadas (snd (limpiar_datos_categoricos
        \<lparr>nrows = 2, cols = [(''A'', Object [NA, Str ''x'']), (''B'', Float64 [Some 1, Some (2 :: real)])]\<rparr> (1 / 2))))
   \<and> ''A'' \<in> set (map fst (cols (fst (limpiar_datos_categoricos
        \<lparr>nrows = 2, cols = [(''A'', Object [NA, Str ''x'']), (''B'', Float64 [Some 1, Some (2 :: real)])]\<rparr> (1 / 2)))))"
proof -
  let ?df = "\<lparr>nrows = 2, cols = [(''A'', Object [NA, Str ''x'']), (''B'', Float64 [Some 1, Some (2 :: real)])]\<rparr>"
  have w: "wf_dataframe ?df" by (simp add: wf_dataframe_def)
  have p: "porcentaje_na ?df (Object [NA, Str ''x'']) = Some ((1 / 2) * 100)"
    by (simp add: porcentaje_na_def)
  from umbral_strict [OF w, of "1 / 2"] w p show ?thesis by simp
qed


section \<open>Properties of the derivation stage\<close>

lemma map_of_assign_col: "map_of (assign_col cs name c) name = Some c"
  by (induction cs name c rule: assign_col.induct) auto

lemma get_col_set_col: "get_col (set_col df name c) name = Some c"
  by (simp add: get_col_def set_col_def map_of_assign_col)

lemma nrows_set_col: "nrows (set_col df name c) = nrows df"
  by (simp add: set_col_def)

lemma grupo_edad_cases:
  "grupo_edad (Some a) =
     (if a < 0 \<or> 100 < a then None
      else if a \<le> 12 then Some (labels_edad ! 0)
      else if a \<le> 18 then Some (labels_edad ! 1)
      else if a \<le> 28 then Some (labels_edad ! 2)
      else if a \<le> 40 then Some (labels_edad ! 3)
      else if a \<le> 60 then Some (labels_edad ! 4)
      else Some (labels_edad ! 5))"
  by (auto simp: grupo_edad_def cut_def searchsorted_left_def Let_def labels_edad_def)

text \<open>
  Claim C6, as amended. The age group is one of six buckets over the edges 0, 12, 18, 28,
  40, 60, 100 with right-inclusive intervals, the lowest edge 0 included in the first:
  [0, 12], (12, 18], (18, 28], (28, 40], (40, 60], (60, 100]. A missing age and an age
  outside [0, 100] give a missing group. The ages 10, 25, 45, 70 give the first, third,
  fifth and sixth label.
\<close>

theorem grupo_edad_right_inclusive:
  "grupo_edad None = None
   \<and> grupo_edad (Some a) =
       (if a < 0 \<or> 100 < a then None
        else if a \<le> 12 then Some (labels_edad ! 0)
        else if a \<le> 18 then Some (labels_edad ! 1)
        else if a \<le> 28 then Some (labels_edad ! 2)
        else if a \<le> 40 then Some (labels_edad ! 3)
        else if a \<le> 60 then Some (labels_edad ! 4)
        else Some (labels_edad ! 5))
   \<and> map grupo_edad [Some 10, Some 25, Some 45, Some 70] =
       [Some (''Ni'' @ [CHR 0xF1] @ ''ez (0-12)''), Some ''Juventud (19-28)'',
        Some ''Adultez media (41-60)'', Some ''Adulto mayor (60+)'']"
proof (intro conjI)
  show "grupo_edad None = None" by (simp add: grupo_edad_def cut_def)
  show "grupo_edad (Some a) =
       (if a < 0 \<or> 100 < a then None
        else if a \<le> 12 then Some (labels_edad ! 0)
        else if a \<le> 18 then Some (labels_edad ! 1)
        else if a \<le> 28 then Some (labels_edad ! 2)
        else if a \<le> 40 then Some (labels_edad ! 3)
        else if a \<le> 60 then Some (labels_edad ! 4)
        else Some (labels_edad ! 5))" by (rule grupo_edad_cases)
  show "map grupo_edad [Some 10, Some 25, Some 45, Some 70] =
       [Some (''Ni'' @ [CHR 0xF1] @ ''ez (0-12)''), Some ''Juventud (19-28)'',
        Some ''Adultez media (41-60)'', Some ''Adulto mayor (60+)'']"
    by (simp add: grupo_edad_cases labels_edad_def)
qed

text \<open>
  Claim C6 as stated fails on the binning rule: the age 12 is put in the first bucket,
  where left-inclusive intervals put it in the second.
\<close>

theorem grupo_edad_not_left_inclusive:
  "grupo_edad (Some 12) = Some (''Ni'' @ [CHR 0xF1] @ ''ez (0-12)'')
   \<and> spec_age_group_left_inclusive 12 = Some ''Adolescencia (13-18)''"
  by (simp add: grupo_edad_cases spec_age_group_left_inclusive_def labels_edad_def)

lemma map_if_none: "length (filter P xs) = 0 \<Longrightarrow> map (\<lambda>v. if P v then f v else v) xs = xs"
  by (induction xs) (auto split: if_splits)

lemma map_if_always:
  "(if 0 < length (filter P xs) then map (\<lambda>v. if P v then f v else v) xs else xs) =
     map (\<lambda>v. if P v then f v else v) xs"
  using map_if_none [of P xs f] by auto


lemma one_not_le_zero: "\<not> (1 :: 'f::{linorder, zero_less_one}) \<le> 0"
  by (simp add: not_le)

lemma le_zero_fill:
  "le_zero (if v = None then Some 1 else v) = le_zero (v :: 'f::{linorder, zero_less_one} option)"
  by (cases v) (auto simp: le_zero_def one_not_le_zero)

lemma count_le_zero_fill:
  "length (filter le_zero (map (\<lambda>v. if v = None then Some 1 else v) xs))
     = length (filter le_zero (xs :: 'f::{linorder, zero_less_one} option list))"
  by (induction xs) (auto simp: le_zero_def one_not_le_zero split: option.splits)

lemma reparar_comp:
  "(if le_zero (if v = None then Some 1 else v) then Some 1 else (if v = None then Some 1 else v))
     = reparar (v :: 'f::{linorder, zero_less_one} option)"
  by (cases v) (auto simp: le_zero_def reparar_def one_not_le_zero)

lemma validar_present:
  fixes parse :: "string \<Rightarrow> 'f::{linorder, zero_less_one} option"
  assumes "get_col df ''FACTOR DE EXPANSION'' = Some c"
  shows "validar_factor_expansion parse df =
      (set_col df ''FACTOR DE EXPANSION'' (Float64 (map reparar (to_numeric parse c))),
       (if 0 < length (filter (\<lambda>v. v = None) (to_numeric parse c))
        then [Valores_no_validos (length (filter (\<lambda>v. v = None) (to_numeric parse c)))] else [])
       @ (if 0 < length (filter le_zero (to_numeric parse c))
          then [Valores_no_positivos (length (filter le_zero (to_numeric parse c)))] else []))"
proof -
  let ?w0 = "to_numeric parse c"
  let ?w1 = "map (\<lambda>v. if v = None then Some 1 else v) ?w0"
  have w1: "(if 0 < length (filter (\<lambda>v. v = None) ?w0) then ?w1 else ?w0) = ?w1"
    by (rule map_if_always)
  have w2: "(if 0 < length (filter le_zero ?w1)
             then map (\<lambda>v. if le_zero v then Some 1 else v) ?w1 else ?w1)
            = map (\<lambda>v. if le_zero v then Some 1 else v) ?w1"
    by (rule map_if_always)
  have m: "map (\<lambda>v. if le_zero v then Some 1 else v) ?w1 = map reparar ?w0"
    by (simp add: reparar_comp)
  show ?thesis
    apply (simp only: validar_factor_expansion_def assms option.case Let_def)
    apply (simp only: w1)
    apply (simp only: w2)
    apply (simp only: m count_le_zero_fill)
    done
qed

lemma validar_absent:
  assumes "get_col df ''FACTOR DE EXPANSION'' = None"
  shows "validar_factor_expansion parse df =
      (set_col df ''FACTOR DE EXPANSION'' (Float64 (replicate (nrows df) (Some 1))),
       [Factor_no_encontrado])"
  by (simp add: validar_factor_expansion_def assms)

lemma reparar_positive: "\<exists>r. reparar v = Some r \<and> 0 < (r :: 'f::{linorder, zero_less_one})"
  by (cases v) (auto simp: reparar_def not_le)

lemma length_to_numeric: "length (to_numeric parse c) = col_length c"
  by (cases c) simp_all

lemma assign_col_names:
  "map fst (assign_col cs name c) =
     (if name \<in> set (map fst cs) then map fst cs else map fst cs @ [name])"
  by (induction cs name c rule: assign_col.induct) auto

lemma assign_col_lengths:
  "list_all (\<lambda>nc. col_length (snd nc) = n) cs \<Longrightarrow> col_length c = n \<Longrightarrow>
     list_all (\<lambda>nc. col_length (snd nc) = n) (assign_col cs name c)"
  by (induction cs name c rule: assign_col.induct) auto

lemma wf_set_col:
  "wf_dataframe df \<Longrightarrow> col_length c = nrows df \<Longrightarrow> wf_dataframe (set_col df name c)"
  by (simp add: wf_dataframe_def set_col_def assign_col_names assign_col_lengths)

lemma wf_get_col_length:
  "wf_dataframe df \<Longrightarrow> get_col df name = Some c \<Longrightarrow> col_length c = nrows df"
  by (auto simp: wf_dataframe_def list_all_iff get_col_def dest!: map_of_SomeD)

text \<open>
  Claim C3, as amended. After the weight repair the frame is well formed with the rows it
  had, the weight column exists and is numeric, with one value for every row, and every
  value is present and strictly positive; it is plus infinity where the coerced value was,
  since the repair tests for a missing value and for a value not above 0 only. Without the
  column, the new column is the constant 1 and the one warning is the assumption. With the
  column, each value is the coerced value, replaced by 1 when the coercion left it missing
  and replaced by 1 when it is not positive; the warnings give the number of missing
  values and then the number of non-positive ones, each count reported when it is not zero
  and neither counting a value of the other kind. The statement holds for the float64
  values and for the real numbers alike.
\<close>

theorem factor_expansion_repaired:
  fixes parse :: "string \<Rightarrow> 'f::{linorder, zero_less_one} option"
  assumes "wf_dataframe df"
  shows "\<exists>ws. get_col (fst (validar_factor_expansion parse df)) ''FACTOR DE EXPANSION'' = Some (Float64 ws)
     \<and> wf_dataframe (fst (validar_factor_expansion parse df))
     \<and> nrows (fst (validar_factor_expansion parse df)) = nrows df
     \<and> length ws = nrows df
     \<and> list_all (\<lambda>w. \<exists>r. w = Some r \<and> 0 < r) ws
     \<and> (case get_col df ''FACTOR DE EXPANSION'' of
          None \<Rightarrow>
            ws = replicate (nrows df) (Some 1)
            \<and> snd (validar_factor_expansion parse df) = [Factor_no_encontrado]
        | Some c \<Rightarrow>
            ws = map (\<lambda>v. case v of None \<Rightarrow> Some 1
                          | Some r \<Rightarrow> if r \<le> 0 then Some 1 else Some r) (to_numeric parse c)
            \<and> snd (validar_factor_expansion parse df) =
                (if 0 < length (filter (\<lambda>v. v = None) (to_numeric parse c))
                 then [Valores_no_validos (length (filter (\<lambda>v. v = None) (to_numeric parse c)))]
                 else [])
                @ (if 0 < length (filter le_zero (to_numeric parse c))
                   then [Valores_no_positivos (length (filter le_zero (to_numeric parse c)))]
                   else []))"
proof (cases "get_col df ''FACTOR DE EXPANSION''")
  case None
  have w: "wf_dataframe (set_col df ''FACTOR DE EXPANSION'' (Float64 (replicate (nrows df) (Some (1 :: 'f)))))"
    by (rule wf_set_col [OF assms]) simp
  show ?thesis
    unfolding validar_absent [OF None] None
    by (rule exI [of _ "replicate (nrows df) (Some 1)"])
       (use w in \<open>simp add: get_col_set_col list_all_iff nrows_set_col\<close>)
next
  case (Some c)
  have r: "reparar = (\<lambda>v :: 'f option. case v of None \<Rightarrow> Some 1 | Some r \<Rightarrow> if r \<le> 0 then Some 1 else Some r)"
    by (rule ext) (simp add: reparar_def)
  have p: "list_all (\<lambda>w. \<exists>r. w = Some r \<and> 0 < r) (map reparar (to_numeric parse c))"
    using reparar_positive [where 'f = 'f] by (simp add: list_all_iff)
  have l: "length (map reparar (to_numeric parse c)) = nrows df"
    using wf_get_col_length [OF assms Some] by (simp add: length_to_numeric)
  have w: "wf_dataframe (set_col df ''FACTOR DE EXPANSION'' (Float64 (map reparar (to_numeric parse c))))"
    by (rule wf_set_col [OF assms]) (use l in simp)
  show ?thesis
    unfolding validar_present [OF Some] Some
    by (rule exI [of _ "map reparar (to_numeric parse c)"])
       (use p l w in \<open>simp add: get_col_set_col r [symmetric] nrows_set_col\<close>)
qed

text \<open>
  A run of the repair on float64 values: of six weights, one unreadable string and one
  missing value are counted as not valid, the values \<open>-1\<close> and minus infinity as not
  positive, and the weight spelled \<^verbatim>\<open>inf\<close> stays plus infinity.
\<close>

theorem factor_expansion_repaired_witness:
  "wf_dataframe
     \<lparr>nrows = 6, cols = [(''FACTOR DE EXPANSION'',
        Object [Str ''2.5'', Str ''abc'', Num (Finite (- 1)), NA, Num MinusInf, Str ''inf''])]\<rparr>
   \<and> get_col (fst (validar_factor_expansion
        (\<lambda>s. if s = ''2.5'' then Some (Finite (5 / 2)) else if s = ''inf'' then Some PlusInf else None)
        \<lparr>nrows = 6, cols = [(''FACTOR DE EXPANSION'',
           Object [Str ''2.5'', Str ''abc'', Num (Finite (- 1)), NA, Num MinusInf, Str ''inf''])]\<rparr>))
        ''FACTOR DE EXPANSION''
       = Some (Float64 [Some (Finite (5 / 2)), Some (Finite 1), Some (Finite 1), Some (Finite 1),
                        Some (Finite 1), Some PlusInf])
   \<and> snd (validar_factor_expansion
        (\<lambda>s. if s = ''2.5'' then Some (Finite (5 / 2)) else if s = ''inf'' then Some PlusInf else None)
        \<lparr>nrows = 6, cols = [(''FACTOR DE EXPANSION'',
           Object [Str ''2.5'', Str ''abc'', Num (Finite (- 1)), NA, Num MinusInf, Str ''inf''])]\<rparr>)
       = [Valores_no_validos 2, Valores_no_positivos 2]"
proof -
  let ?df = "\<lparr>nrows = 6, cols = [(''FACTOR DE EXPANSION'',
        Object [Str ''2.5'', Str ''abc'', Num (Finite (- 1)), NA, Num MinusInf, Str ''inf''])]\<rparr>"
  let ?parse = "\<lambda>s. if s = ''2.5'' then Some (Finite (5 / 2)) else if s = ''inf'' then Some PlusInf else None"
  have w: "wf_dataframe ?df" by (simp add: wf_dataframe_def)
  from factor_expansion_repaired [OF w, of ?parse] w show ?thesis
    by (auto simp: get_col_def le_zero_def less_eq_float64_def zero_float64_def one_float64_def)
qed

text \<open>
  Claim C3 as stated fails on finiteness: a weight read as plus infinity is neither missing
  nor at most 0, so it is kept, with no warning, and the weight of that row is not finite.
\<close>

theorem factor_expansion_infinite_kept:
  "validar_factor_expansion (\<lambda>s. if s = ''inf'' then Some PlusInf else None)
     \<lparr>nrows = 2, cols = [(''FACTOR DE EXPANSION'', Object [Str ''inf'', Num (Finite 2)])]\<rparr>
   = (\<lparr>nrows = 2, cols = [(''FACTOR DE EXPANSION'', Float64 [Some PlusInf, Some (Finite 2)])]\<rparr>, [])
   \<and> \<not> isfinite PlusInf"
  by (simp add: validar_factor_expansion_def get_col_def set_col_def le_zero_def
      less_eq_float64_def zero_float64_def)

text \<open>
  The same run on real numbers: of five weights, one unreadable string and one missing
  value are counted as not valid, and the values \<open>-1\<close> and \<open>0\<close> as not positive.
\<close>

lemma validar_factor_expansion_example:
  "validar_factor_expansion (\<lambda>s. if s = ''2.5'' then Some (5 / 2 :: real) else None)
     \<lparr>nrows = 5, cols = [(''FACTOR DE EXPANSION'', Object [Str ''2.5'', Str ''abc'', Num (- 1), NA, Num 0])]\<rparr>
   = (\<lparr>nrows = 5, cols = [(''FACTOR DE EXPANSION'', Float64 [Some (5 / 2), Some 1, Some 1, Some 1, Some 1])]\<rparr>,
      [Valores_no_validos 2, Valores_no_positivos 2])"
  by (simp add: validar_factor_expansion_def get_col_def set_col_def le_zero_def)

section \<open>Properties of the weighted aggregation\<close>

lemma dropna_map_Some: "dropna (map Some xs) = xs"
  by (induction xs) auto

lemma dropna_all_None: "list_all (\<lambda>v. v = None) xs \<Longrightarrow> dropna xs = []"
  by (induction xs) auto

lemma sum_list_nonneg_real: "list_all (\<lambda>w. 0 < w) xs \<Longrightarrow> 0 \<le> sum_list (xs :: real list)"
  by (induction xs) auto

lemma sum_list_pos_real: "xs \<noteq> [] \<Longrightarrow> list_all (\<lambda>w. 0 < w) xs \<Longrightarrow> 0 < sum_list (xs :: real list)"
  by (cases xs) (auto simp: add_pos_nonneg sum_list_nonneg_real)

text \<open>
  Claim C7, as amended. In a group where no index value and no weight is missing, as the
  derivation stage leaves them, and the weights are positive, the weighted mean is the sum
  of weight times value over the sum of the weights, over all rows of the group. In a
  group with no index value present the result is 0.
\<close>

theorem avg_participation_weighted_mean:
  "(length vs = length ws \<and> vs \<noteq> [] \<and> list_all (\<lambda>w. 0 < w) ws \<longrightarrow>
      avg_participation (map Some vs) (map Some ws) = Inr (sum_list (map2 (*) vs ws) / sum_list ws))
   \<and> (list_all (\<lambda>v. v = None) indice_cultural \<longrightarrow>
        avg_participation indice_cultural factor_expansion = Inr 0)"
proof (intro conjI impI)
  assume a: "length vs = length ws \<and> vs \<noteq> [] \<and> list_all (\<lambda>w. 0 < w) ws"
  then have "ws \<noteq> []" by auto
  with a have "0 < sum_list ws" by (simp add: sum_list_pos_real)
  with a show "avg_participation (map Some vs) (map Some ws) =
      Inr (sum_list (map2 (*) vs ws) / sum_list ws)"
    by (simp add: avg_participation_def np_average_def dropna_map_Some)
next
  assume "list_all (\<lambda>v. v = None) indice_cultural"
  then show "avg_participation indice_cultural factor_expansion = Inr 0"
    by (simp add: avg_participation_def dropna_all_None)
qed

text \<open>
  Two rows with values 3 and 1 and weights 1 and 3 have the weighted mean 6/4; two rows
  without a value give 0.
\<close>

theorem avg_participation_weighted_mean_witness:
  "avg_participation [Some 3, Some 1] [Some 1, Some 3] = Inr (6 / 4)
   \<and> avg_participation [None, None] [Some 1, Some 3] = Inr 0"
  using avg_participation_weighted_mean [of "[3, 1]" "[1, 3]" "[None, None]" "[Some 1, Some 3]"]
  by simp

text \<open>
  Claim C7 as stated fails: a group whose only index value is missing gets the number 0,
  not an undefined marker. And a row with a missing value is not left out of the
  denominator: its weight stays among the weights, and the average of one value with two
  weights raises.
\<close>

theorem avg_participation_zero_not_undefined:
  "avg_participation [None] [Some 1] = Inr 0
   \<and> avg_participation [None, Some 4] [Some 1, Some 1] = Inl TypeError"
  by (simp add: avg_participation_def np_average_def)

lemma get_col_select_rows:
  "get_col (select_rows df keep) name = map_option (select_col keep) (get_col df name)"
proof -
  have "map_of (map (\<lambda>nc. (fst nc, f (snd nc))) cs) name = map_option f (map_of cs name)"
    for f :: "'a column \<Rightarrow> 'a column" and cs
    by (induction cs) auto
  then show ?thesis by (simp add: get_col_def select_rows_def)
qed

lemma select_map_same: "select (map P xs) xs = filter P xs"
  by (induction xs) (auto simp: select_def)

lemma select_map_zip:
  "length xs = length ws \<Longrightarrow>
     select (map P xs) ws = map snd (filter (\<lambda>vw. P (fst vw)) (zip xs ws))"
  by (induction xs ws rule: list_induct2) (auto simp: select_def)

lemma select_of_map: "select keep (map f xs) = map f (select keep xs)"
proof (induction xs arbitrary: keep)
  case Nil
  then show ?case by (simp add: select_def)
next
  case (Cons x xs)
  then show ?case by (cases keep) (auto simp: select_def)
qed

lemma as_cells_select_col: "as_cells (select_col keep c) = select keep (as_cells c)"
  by (cases c) (simp_all add: select_of_map)

lemma length_as_cells: "length (as_cells c) = col_length c"
  by (cases c) simp_all

lemma weighted_sums:
  "length xs = length ws \<Longrightarrow>
     sum_skipna (map2 mul_bool (map Q (filter P xs)) (map snd (filter (\<lambda>vw. P (fst vw)) (zip xs ws))))
       = sum_skipna (map snd (filter (\<lambda>vw. Q (fst vw)) (filter (\<lambda>vw. P (fst vw)) (zip xs ws))))"
  by (induction xs ws rule: list_induct2)
     (auto simp: sum_skipna_def mul_bool_def split: option.splits)

lemma filter_zip_empty:
  "length xs = length ws \<Longrightarrow> filter (\<lambda>vw. P (fst vw)) (zip xs ws) = [] \<longleftrightarrow> filter P xs = []"
  by (induction xs ws rule: list_induct2) auto



lemma weighted_percentage_eligible:
  assumes "wf_dataframe df"
    and "get_col df column = Some c"
    and "get_col df ''FACTOR DE EXPANSION'' = Some (Float64 ws)"
  shows "weighted_percentage df column val =
     Inr (if filter (\<lambda>vw. fst vw \<in> {Str ''SI'', Str ''NO''}) (zip (as_cells c) ws) = [] then Some 0
          else fdiv (sum_skipna (map snd (filter (\<lambda>vw. fst vw = Str val)
                       (filter (\<lambda>vw. fst vw \<in> {Str ''SI'', Str ''NO''}) (zip (as_cells c) ws)))))
                    (sum_skipna (map snd
                       (filter (\<lambda>vw. fst vw \<in> {Str ''SI'', Str ''NO''}) (zip (as_cells c) ws)))))"
proof -
  let ?xs = "as_cells c"
  let ?P = "\<lambda>v. v \<in> {Str ''SI'', Str ''NO''}"
  let ?elig = "filter (\<lambda>vw. ?P (fst vw)) (zip ?xs ws)"
  let ?valid = "select_rows df (isin c [Str ''SI'', Str ''NO''])"
  have len: "length ?xs = length ws"
    using wf_get_col_length [OF assms(1,2)] wf_get_col_length [OF assms(1,3)]
    by (simp add: length_as_cells)
  have isin: "isin c [Str ''SI'', Str ''NO''] = map ?P ?xs"
    by (simp add: isin_def)
  have cols_ne: "cols df \<noteq> []"
    using assms(2) by (auto simp: get_col_def)
  have empty: "empty_df ?valid \<longleftrightarrow> ?elig = []"
    using cols_ne filter_zip_empty [OF len, of ?P]
    by (simp add: empty_df_def select_rows_def isin length_filter_map [symmetric] filter_map comp_def)
  have cv: "get_col ?valid column = Some (select_col (map ?P ?xs) c)"
    by (simp add: get_col_select_rows assms(2) isin)
  have wv: "get_col ?valid ''FACTOR DE EXPANSION'' = Some (Float64 (select (map ?P ?xs) ws))"
    by (simp add: get_col_select_rows assms(3) isin)
  have sw: "select (map ?P ?xs) ws = map snd ?elig"
    by (rule select_map_zip [OF len])
  have eqv: "eq_value (select_col (map ?P ?xs) c) val = map (\<lambda>v. v = Str val) (filter ?P ?xs)"
    by (simp add: eq_value_def as_cells_select_col select_map_same)
  have num: "sum_skipna (map2 mul_bool (map (\<lambda>v. v = Str val) (filter ?P ?xs)) (map snd ?elig))
           = sum_skipna (map snd (filter (\<lambda>vw. fst vw = Str val) ?elig))"
    by (rule weighted_sums [OF len])
  show ?thesis
  proof (cases "?elig = []")
    case True
    then show ?thesis
      using empty assms(2) by (simp add: weighted_percentage_def Let_def)
  next
    case False
    have "weighted_percentage df column val =
        Inr (fdiv (sum_skipna (map snd (filter (\<lambda>vw. fst vw = Str val) ?elig)))
                  (sum_skipna (map snd ?elig)))"
      using False empty
      by (simp add: weighted_percentage_def Let_def assms(2) cv wv sw eqv num del: insert_iff)
    with False show ?thesis by (simp del: insert_iff)
  qed
qed





lemma select_select:
  "length ys = length xs \<Longrightarrow> (\<And>v. P v \<Longrightarrow> Q v) \<Longrightarrow>
     select (map P (filter Q xs)) (select (map Q xs) ys) = select (map P xs) ys"
  by (induction ys xs rule: list_induct2) (auto simp: select_def)

lemma select_col_select_col:
  "col_length d = length xs \<Longrightarrow> (\<And>v. P v \<Longrightarrow> Q v) \<Longrightarrow>
     select_col (map P (filter Q xs)) (select_col (map Q xs) d) = select_col (map P xs) d"
  by (cases d) (simp_all add: select_select)

lemma count_true_filter:
  "(\<And>v. P v \<Longrightarrow> Q v) \<Longrightarrow>
     length (filter (\<lambda>b. b) (map P (filter Q xs))) = length (filter (\<lambda>b. b) (map P xs))"
  by (induction xs) auto

lemma select_rows_select_rows:
  assumes "wf_dataframe df" and "length xs = nrows df" and "\<And>v. P v \<Longrightarrow> Q v"
  shows "select_rows (select_rows df (map Q xs)) (map P (filter Q xs)) = select_rows df (map P xs)"
proof -
  have "select_col (map P (filter Q xs)) (select_col (map Q xs) (snd nc)) = select_col (map P xs) (snd nc)"
    if "nc \<in> set (cols df)" for nc
  proof (rule select_col_select_col)
    show "col_length (snd nc) = length xs"
      using assms(1,2) that by (auto simp: wf_dataframe_def list_all_iff)
  qed (rule assms(3))
  then have "map (\<lambda>nc. (fst nc, select_col (map P (filter Q xs)) (select_col (map Q xs) (snd nc)))) (cols df)
        = map (\<lambda>nc. (fst nc, select_col (map P xs) (snd nc))) (cols df)"
    by (intro map_cong) auto
  then show ?thesis
    using count_true_filter [of P Q xs, OF assms(3)]
    by (simp add: select_rows_def comp_def)
qed

lemma sum_two_values:
  "a \<noteq> b \<Longrightarrow>
     sum_skipna (map snd (filter (\<lambda>vw. fst vw \<in> {a, b}) zs))
       = sum_skipna (map snd (filter (\<lambda>vw. fst vw = a) zs))
         + sum_skipna (map snd (filter (\<lambda>vw. fst vw = b) zs))"
  by (induction zs) (auto simp: sum_skipna_def)

lemma filter_value_eligible:
  "filter (\<lambda>vw. fst vw = a) (filter (\<lambda>vw. fst vw \<in> {a, b}) zs) = filter (\<lambda>vw. fst vw = a) zs"
  by (induction zs) auto

lemma eligible_empty_iff:
  "length xs = length ws \<Longrightarrow>
     filter (\<lambda>vw. fst vw \<in> {a, b}) (zip xs ws) = [] \<longleftrightarrow> a \<notin> set xs \<and> b \<notin> set xs"
  using filter_zip_empty [of xs ws "\<lambda>v. v \<in> {a, b}"] by (auto simp: filter_empty_conv)

text \<open>
  Claim C10. The eligible rows of the weighted rate are those holding exactly SI or NO. On
  every frame that holds the column and a float64 weight column, the rate of SI is 0 when
  no row holds SI or NO, and otherwise the weight of the rows holding SI over the weight of
  the rows holding SI plus the weight of the rows holding NO: the weight of a row holding
  the accented spelling is in neither sum, and taking those rows out of the frame changes
  no rate. The conversion to numbers does map the accented spelling to 1. On the frame of
  three rows of weight 1 holding the accented spelling, SI and NO, the weighted rate of SI
  is 1/2 while the weighted mean of the converted column is 2/3.
\<close>

theorem accented_yes_excluded:
  assumes "wf_dataframe df"
    and "get_col df column = Some c"
    and "get_col df ''FACTOR DE EXPANSION'' = Some (Float64 ws)"
  shows "weighted_percentage df column ''SI'' =
           Inr (if Str ''SI'' \<notin> set (as_cells c) \<and> Str ''NO'' \<notin> set (as_cells c) then Some 0
                else fdiv (sum_skipna (map snd (filter (\<lambda>vw. fst vw = Str ''SI'') (zip (as_cells c) ws))))
                          (sum_skipna (map snd (filter (\<lambda>vw. fst vw = Str ''SI'') (zip (as_cells c) ws)))
                           + sum_skipna (map snd (filter (\<lambda>vw. fst vw = Str ''NO'') (zip (as_cells c) ws)))))
       \<and> weighted_percentage (select_rows df (map (\<lambda>v. v \<noteq> Str SI_acento) (as_cells c))) column val
           = weighted_percentage df column val
       \<and> convertir_si_no (Object [Str SI_acento, Str ''SI'', Str ''NO''])
           = Some (Float64 [Some 1, Some 1, Some (0 :: real)])
       \<and> weighted_percentage
            \<lparr>nrows = 3, cols = [(''P3'', Object [Str SI_acento, Str ''SI'', Str ''NO'']),
                                (''FACTOR DE EXPANSION'', Float64 [Some 1, Some 1, Some 1])]\<rparr> ''P3'' ''SI''
           = Inr (Some (1 / 2))
       \<and> np_average [1, 1, 0] [1, 1, 1] = Inr (2 / 3)"
proof (intro conjI)
  have len: "length (as_cells c) = length ws"
    using wf_get_col_length [OF assms(1,2)] wf_get_col_length [OF assms(1,3)]
    by (simp add: length_as_cells)
  have ne: "Str ''SI'' \<noteq> (Str ''NO'' :: real cell)" by simp
  show "weighted_percentage df column ''SI'' =
           Inr (if Str ''SI'' \<notin> set (as_cells c) \<and> Str ''NO'' \<notin> set (as_cells c) then Some 0
                else fdiv (sum_skipna (map snd (filter (\<lambda>vw. fst vw = Str ''SI'') (zip (as_cells c) ws))))
                          (sum_skipna (map snd (filter (\<lambda>vw. fst vw = Str ''SI'') (zip (as_cells c) ws)))
                           + sum_skipna (map snd (filter (\<lambda>vw. fst vw = Str ''NO'') (zip (as_cells c) ws)))))"
    by (simp only: weighted_percentage_eligible [OF assms] eligible_empty_iff [OF len]
        sum_two_values [OF ne] filter_value_eligible)
next
  let ?xs = "as_cells c"
  let ?Q = "\<lambda>v. v \<noteq> Str SI_acento"
  let ?P = "\<lambda>v. v \<in> set [Str ''SI'', Str ''NO'']"
  let ?df' = "select_rows df (map ?Q ?xs)"
  have PQ: "?P v \<Longrightarrow> ?Q v" for v by (auto simp: SI_acento_def)
  have len: "length ?xs = nrows df"
    using wf_get_col_length [OF assms(1,2)] by (simp add: length_as_cells)
  have c': "get_col ?df' column = Some (select_col (map ?Q ?xs) c)"
    by (simp add: get_col_select_rows assms(2))
  have "isin (select_col (map ?Q ?xs) c) [Str ''SI'', Str ''NO''] = map ?P (filter ?Q ?xs)"
    by (simp only: isin_def as_cells_select_col select_map_same)
  then have "select_rows ?df' (isin (select_col (map ?Q ?xs) c) [Str ''SI'', Str ''NO''])
           = select_rows df (map ?P ?xs)"
    using select_rows_select_rows [OF assms(1) len PQ] by simp
  moreover have "isin c [Str ''SI'', Str ''NO''] = map ?P ?xs" by (simp only: isin_def)
  ultimately have v: "select_rows ?df' (isin (select_col (map ?Q ?xs) c) [Str ''SI'', Str ''NO''])
           = select_rows df (isin c [Str ''SI'', Str ''NO''])" by simp
  show "weighted_percentage ?df' column val = weighted_percentage df column val"
    unfolding weighted_percentage_def c' assms(2) option.case v ..
next
  show "convertir_si_no (Object [Str SI_acento, Str ''SI'', Str ''NO''])
           = Some (Float64 [Some 1, Some 1, Some (0 :: real)])"
    by (simp add: convertir_si_no_def si_no_spelling_def py_upper_def py_strip_def is_space_def
        upper_char_def SI_acento_def)
next
  show "weighted_percentage
            \<lparr>nrows = 3, cols = [(''P3'', Object [Str SI_acento, Str ''SI'', Str ''NO'']),
                                (''FACTOR DE EXPANSION'', Float64 [Some 1, Some 1, Some 1])]\<rparr> ''P3'' ''SI''
           = Inr (Some (1 / 2))"
    by (simp add: weighted_percentage_def get_col_def select_rows_def isin_def select_def empty_df_def
      eq_value_def sum_skipna_def mul_bool_def fdiv_def SI_acento_def)
next
  show "np_average [1, 1, 0] [1, 1, 1] = Inr (2 / 3)"
    by (simp add: np_average_def)
qed

text \<open>
  Three rows holding the accented spelling, SI and NO, with weights 5, 1 and 3: the rate of
  SI is 1 over 4, the weight 5 counting neither above nor below the line; and the rate is
  the one of the frame left with the two other rows.
\<close>

theorem accented_yes_excluded_witness:
  "wf_dataframe \<lparr>nrows = 3, cols = [(''P3'', Object [Str SI_acento, Str ''SI'', Str ''NO'']),
                                (''FACTOR DE EXPANSION'', Float64 [Some 5, Some 1, Some (3 :: real)])]\<rparr>
   \<and> get_col \<lparr>nrows = 3, cols = [(''P3'', Object [Str SI_acento, Str ''SI'', Str ''NO'']),
                                (''FACTOR DE EXPANSION'', Float64 [Some 5, Some 1, Some (3 :: real)])]\<rparr> ''P3''
       = Some (Object [Str SI_acento, Str ''SI'', Str ''NO''])
   \<and> weighted_percentage
        \<lparr>nrows = 3, cols = [(''P3'', Object [Str SI_acento, Str ''SI'', Str ''NO'']),
                            (''FACTOR DE EXPANSION'', Float64 [Some 5, Some 1, Some 3])]\<rparr> ''P3'' ''SI''
       = Inr (Some (1 / 4))
   \<and> weighted_percentage
        \<lparr>nrows = 2, cols = [(''P3'', Object [Str ''SI'', Str ''NO'']),
                            (''FACTOR DE EXPANSION'', Float64 [Some 1, Some 3])]\<rparr> ''P3'' ''SI''
       = Inr (Some (1 / 4))"
proof -
  let ?df = "\<lparr>nrows = 3, cols = [(''P3'', Object [Str SI_acento, Str ''SI'', Str ''NO'']),
                                (''FACTOR DE EXPANSION'', Float64 [Some 5, Some 1, Some (3 :: real)])]\<rparr>"
  have w: "wf_dataframe ?df" by (simp add: wf_dataframe_def)
  have c: "get_col ?df ''P3'' = Some (Object [Str SI_acento, Str ''SI'', Str ''NO''])"
    by (simp add: get_col_def)
  have f: "get_col ?df ''FACTOR DE EXPANSION'' = Some (Float64 [Some 5, Some 1, Some 3])"
    by (simp add: get_col_def)
  have s: "select_rows ?df (map (\<lambda>v. v \<noteq> Str SI_acento) (as_cells (Object [Str SI_acento, Str ''SI'', Str ''NO''])))
         = \<lparr>nrows = 2, cols = [(''P3'', Object [Str ''SI'', Str ''NO'']),
                            (''FACTOR DE EXPANSION'', Float64 [Some 1, Some 3])]\<rparr>"
    by (simp add: select_rows_def select_def SI_acento_def)
  from accented_yes_excluded [OF w c f, of "''SI''"] w c show ?thesis
    unfolding s by (simp add: sum_skipna_def fdiv_def SI_acento_def)
qed

section \<open>Properties of the association matrix\<close>

lemma square_zeros: "square n (zeros n)"
  by (simp add: square_def zeros_def list_all_iff)

lemma square_set_entry: "square n m \<Longrightarrow> i < n \<Longrightarrow> square n (set_entry m i j v)"
  by (auto simp: square_def set_entry_def list_all_iff dest!: set_update_subset_insert [THEN subsetD])

lemma set_entry_nth:
  "square n m \<Longrightarrow> i < n \<Longrightarrow> j < n \<Longrightarrow> a < n \<Longrightarrow> b < n \<Longrightarrow>
     set_entry m i j v ! a ! b = (if a = i \<and> b = j then v else m ! a ! b)"
  by (auto simp: square_def set_entry_def list_all_length nth_list_update)

lemma set_entry_pair_nth:
  "square n m \<Longrightarrow> i < n \<Longrightarrow> j < n \<Longrightarrow> a < n \<Longrightarrow> b < n \<Longrightarrow>
     set_entry (set_entry m i j v) j i v ! a ! b =
       (if (a = j \<and> b = i) \<or> (a = i \<and> b = j) then v else m ! a ! b)"
  by (auto simp: square_def set_entry_def list_all_length nth_list_update)

lemma matrix_after_zeros: "matrix_after df variables weights {} (zeros (length variables))"
  unfolding matrix_after_def
proof (intro conjI allI impI)
  show "square (length variables) (zeros (length variables))" by (rule square_zeros)
next
  fix a b assume "a < length variables" and "b < length variables"
  then show "zeros (length variables) ! a ! b = entry_after df variables weights {} a b"
    by (simp add: entry_after_def zeros_def)
qed

lemma step_diag:
  assumes "matrix_after df vs w visited m" and "i < length vs"
  shows "matrix_after df vs w (insert (i, i) visited) (set_entry m i i (Some 1))"
proof -
  from assms have sq: "square (length vs) m" by (simp add: matrix_after_def)
  show ?thesis
    unfolding matrix_after_def
  proof (intro conjI allI impI)
    show "square (length vs) (set_entry m i i (Some 1))"
      by (rule square_set_entry [OF sq assms(2)])
  next
    fix a b assume a: "a < length vs" and b: "b < length vs"
    have "m ! a ! b = entry_after df vs w visited a b"
      using assms(1) a b by (simp add: matrix_after_def)
    then show "set_entry m i i (Some 1) ! a ! b = entry_after df vs w (insert (i, i) visited) a b"
      using set_entry_nth [OF sq assms(2) assms(2) a b, of "Some 1"]
      by (auto simp: entry_after_def)
  qed
qed

lemma step_pair:
  assumes "matrix_after df vs w visited m" and "i < length vs" and "j < length vs" and "i < j"
    and "pair_association df (vs ! i) (vs ! j) w = Inr (Some v)"
  shows "matrix_after df vs w (insert (i, j) visited) (set_entry (set_entry m i j v) j i v)"
proof -
  from assms have sq: "square (length vs) m" by (simp add: matrix_after_def)
  have sq1: "square (length vs) (set_entry m i j v)"
    by (rule square_set_entry [OF sq assms(2)])
  have pv: "pair_value df vs w i j = v" using assms(5) by (simp add: pair_value_def)
  show ?thesis
    unfolding matrix_after_def
  proof (intro conjI allI impI)
    show "square (length vs) (set_entry (set_entry m i j v) j i v)"
      by (rule square_set_entry [OF sq1 assms(3)])
  next
    fix a b assume a: "a < length vs" and b: "b < length vs"
    have old: "m ! a ! b = entry_after df vs w visited a b"
      using assms(1) a b by (simp add: matrix_after_def)
    have new: "set_entry (set_entry m i j v) j i v ! a ! b =
        (if (a = j \<and> b = i) \<or> (a = i \<and> b = j) then v else m ! a ! b)"
      by (rule set_entry_pair_nth [OF sq assms(2) assms(3) a b])
    have mm: "(min a b, max a b) = (i, j) \<longleftrightarrow> (a = j \<and> b = i) \<or> (a = i \<and> b = j)"
      using assms(4) by (auto simp: min_def max_def)
    show "set_entry (set_entry m i j v) j i v ! a ! b
        = entry_after df vs w (insert (i, j) visited) a b"
    proof (cases "(a = j \<and> b = i) \<or> (a = i \<and> b = j)")
      case True
      have "a \<noteq> b" using True assms(4) by auto
      moreover have "(min a b, max a b) = (i, j)" using True mm by simp
      ultimately have e: "entry_after df vs w (insert (i, j) visited) a b = pair_value df vs w i j"
        by (simp add: entry_after_def)
      have "set_entry (set_entry m i j v) j i v ! a ! b = v"
        unfolding new using True by (rule if_P)
      also have "v = pair_value df vs w i j" by (rule pv [symmetric])
      also have "\<dots> = entry_after df vs w (insert (i, j) visited) a b" by (rule e [symmetric])
      finally show ?thesis .
    next
      case False
      with mm have "(min a b, max a b) \<noteq> (i, j)" by simp
      moreover have "(a, a) \<noteq> (i, j)" using assms(4) by auto
      ultimately have e: "entry_after df vs w (insert (i, j) visited) a b
          = entry_after df vs w visited a b"
        by (auto simp: entry_after_def)
      have "set_entry (set_entry m i j v) j i v ! a ! b = m ! a ! b"
        unfolding new using False by (rule if_not_P)
      also have "\<dots> = entry_after df vs w visited a b" by (rule old)
      also have "\<dots> = entry_after df vs w (insert (i, j) visited) a b" by (rule e [symmetric])
      finally show ?thesis .
    qed
  qed
qed

lemma step_nothing:
  assumes "matrix_after df vs w visited m"
    and "i < j \<longrightarrow> pair_association df (vs ! i) (vs ! j) w = Inr None"
    and "i \<noteq> j"
  shows "matrix_after df vs w (insert (i, j) visited) m"
proof -
  have "entry_after df vs w (insert (i, j) visited) a b = entry_after df vs w visited a b" for a b
  proof (cases "i < j")
    case True
    with assms(2) have "pair_value df vs w i j = Some 0" by (simp add: pair_value_def)
    with assms(3) show ?thesis by (auto simp: entry_after_def)
  next
    case False
    with assms(3) have "j < i" by simp
    then have "(min a b, max a b) \<noteq> (i, j)" by (auto simp: min_def max_def)
    with assms(3) show ?thesis by (auto simp: entry_after_def)
  qed
  with assms(1) show ?thesis by (simp add: matrix_after_def)
qed

lemma inner_loop_after:
  "inner_loop df vs w i js m = Inr m' \<Longrightarrow> matrix_after df vs w visited m \<Longrightarrow>
     i < length vs \<Longrightarrow> \<forall>j \<in> set js. j < length vs \<Longrightarrow>
     matrix_after df vs w (visited \<union> {i} \<times> set js) m'"
proof (induction js arbitrary: m visited)
  case Nil
  then show ?case by simp
next
  case (Cons j js)
  have j: "j < length vs" using Cons.prems(4) by simp
  have rest: "\<forall>j \<in> set js. j < length vs" using Cons.prems(4) by simp
  have eq: "visited \<union> {i} \<times> set (j # js) = insert (i, j) visited \<union> {i} \<times> set js" by auto
  consider (diag) "i = j" | (upper) "i < j" | (lower) "j < i" by linarith
  then show ?case
  proof cases
    case diag
    with Cons.prems(1) have "inner_loop df vs w i js (set_entry m i i (Some 1)) = Inr m'" by simp
    from Cons.IH [OF this step_diag [OF Cons.prems(2,3)] Cons.prems(3) rest]
    show ?thesis unfolding eq using diag by simp
  next
    case upper
    show ?thesis
    proof (cases "pair_association df (vs ! i) (vs ! j) w")
      case (Inl e)
      with upper Cons.prems(1) show ?thesis by simp
    next
      case (Inr r)
      show ?thesis
      proof (cases r)
        case None
        with Inr upper Cons.prems(1) have "inner_loop df vs w i js m = Inr m'" by simp
        moreover have "matrix_after df vs w (insert (i, j) visited) m"
          by (rule step_nothing [OF Cons.prems(2)]) (use Inr None upper in auto)
        ultimately show ?thesis unfolding eq
          using Cons.IH Cons.prems(3) rest by blast
      next
        case (Some v)
        with Inr upper Cons.prems(1)
        have "inner_loop df vs w i js (set_entry (set_entry m i j v) j i v) = Inr m'" by simp
        moreover have "matrix_after df vs w (insert (i, j) visited)
              (set_entry (set_entry m i j v) j i v)"
          by (rule step_pair [OF Cons.prems(2,3) j upper]) (use Inr Some in simp)
        ultimately show ?thesis unfolding eq
          using Cons.IH Cons.prems(3) rest by blast
      qed
    qed
  next
    case lower
    with Cons.prems(1) have "inner_loop df vs w i js m = Inr m'" by simp
    moreover have "matrix_after df vs w (insert (i, j) visited) m"
      by (rule step_nothing [OF Cons.prems(2)]) (use lower in auto)
    ultimately show ?thesis unfolding eq
      using Cons.IH Cons.prems(3) rest by blast
  qed
qed

lemma outer_loop_after:
  "outer_loop df vs w is m = Inr m' \<Longrightarrow> matrix_after df vs w visited m \<Longrightarrow>
     \<forall>i \<in> set is. i < length vs \<Longrightarrow>
     matrix_after df vs w (visited \<union> set is \<times> {..<length vs}) m'"
proof (induction "is" arbitrary: m visited)
  case Nil
  then show ?case by simp
next
  case (Cons i "is")
  from Cons.prems(1) obtain m1 where
    m1: "inner_loop df vs w i [0..<length vs] m = Inr m1" and
    rest: "outer_loop df vs w is m1 = Inr m'"
    by (auto split: sum.splits)
  have i: "i < length vs" using Cons.prems(3) by simp
  have "matrix_after df vs w (visited \<union> {i} \<times> set [0..<length vs]) m1"
    by (rule inner_loop_after [OF m1 Cons.prems(2) i]) simp
  from Cons.IH [OF rest this] Cons.prems(3)
  have "matrix_after df vs w (visited \<union> {i} \<times> set [0..<length vs] \<union> set is \<times> {..<length vs}) m'"
    by simp
  moreover have "visited \<union> {i} \<times> set [0..<length vs] \<union> set is \<times> {..<length vs}
      = visited \<union> set (i # is) \<times> {..<length vs}" by auto
  ultimately show ?case by simp
qed

lemma calculate_association_matrix_after:
  assumes "calculate_association_matrix df vs w = Inr m"
  shows "matrix_after df vs w ({..<length vs} \<times> {..<length vs}) m"
proof -
  have "matrix_after df vs w ({} \<union> set [0..<length vs] \<times> {..<length vs}) m"
    by (rule outer_loop_after [OF assms [unfolded calculate_association_matrix_def]
          matrix_after_zeros]) simp
  moreover have "set [0..<length vs] = {..<length vs}" by auto
  ultimately show ?thesis by simp
qed

lemma pair_association_no_raise:
  assumes "get_col df v1 \<noteq> None" and "get_col df v2 \<noteq> None"
    and "case w of None \<Rightarrow> True | Some wn \<Rightarrow> get_col df wn \<noteq> None"
  shows "\<exists>r. pair_association df v1 v2 w = Inr r"
  using assms by (auto simp: pair_association_def Let_def split: option.splits)

lemma inner_loop_no_raise:
  "\<forall>j \<in> set js. i < j \<longrightarrow> (\<exists>r. pair_association df (vs ! i) (vs ! j) w = Inr r) \<Longrightarrow>
     \<exists>m'. inner_loop df vs w i js m = Inr m'"
proof (induction js arbitrary: m)
  case Nil
  then show ?case by simp
next
  case (Cons j js)
  show ?case
  proof (cases "i < j")
    case True
    with Cons.prems obtain r where "pair_association df (vs ! i) (vs ! j) w = Inr r" by auto
    with Cons True show ?thesis by (cases r) auto
  next
    case False
    with Cons show ?thesis by auto
  qed
qed

lemma outer_loop_no_raise_upto:
  "\<forall>i \<in> set is. \<forall>j < length vs. i < j \<longrightarrow>
       (\<exists>r. pair_association df (vs ! i) (vs ! j) w = Inr r) \<Longrightarrow>
     \<exists>m'. outer_loop df vs w is m = Inr m'"
proof (induction "is" arbitrary: m)
  case Nil
  then show ?case by simp
next
  case (Cons i "is")
  then obtain m1 where "inner_loop df vs w i [0..<length vs] m = Inr m1"
    using inner_loop_no_raise [of "[0..<length vs]" i df vs w m] by auto
  with Cons show ?case by simp
qed

text \<open>
  Claim C2. When every variable, and the weight column if one is named, is a column of the
  frame, the function returns a matrix. The matrix it returns has one row and one column
  per variable, is symmetric, and has 1 on the diagonal; for \<open>i < j\<close> the entries
  \<open>(i, j)\<close> and \<open>(j, i)\<close> both hold the one value computed for the pair of variables
  \<open>i\<close> and \<open>j\<close> in that order, so only the upper triangle is computed and the lower
  one mirrors it.
\<close>

theorem association_matrix_symmetric:
  "(list_all (\<lambda>v. get_col df v \<noteq> None) variables
      \<and> (case weights of None \<Rightarrow> True | Some wn \<Rightarrow> get_col df wn \<noteq> None)
      \<longrightarrow> (\<exists>m. calculate_association_matrix df variables weights = Inr m))
   \<and> (calculate_association_matrix df variables weights = Inr m
        \<and> i < length variables \<and> j < length variables
      \<longrightarrow> length m = length variables \<and> length (m ! i) = length variables
          \<and> m ! i ! j = m ! j ! i
          \<and> m ! i ! i = Some 1
          \<and> (i < j \<longrightarrow> m ! i ! j = pair_value df variables weights i j
                       \<and> m ! j ! i = pair_value df variables weights i j))"
proof (intro conjI impI)
  assume a: "list_all (\<lambda>v. get_col df v \<noteq> None) variables
      \<and> (case weights of None \<Rightarrow> True | Some wn \<Rightarrow> get_col df wn \<noteq> None)"
  show "\<exists>m. calculate_association_matrix df variables weights = Inr m"
  proof (cases "variables = []")
    case True
    then show ?thesis by (simp add: calculate_association_matrix_def)
  next
    case False
    have "\<exists>r. pair_association df (variables ! i) (variables ! j) weights = Inr r"
      if "i < length variables" and "j < length variables" for i j
    proof (rule pair_association_no_raise)
      show "get_col df (variables ! i) \<noteq> None"
        using a that(1) by (simp add: list_all_length)
      show "get_col df (variables ! j) \<noteq> None"
        using a that(2) by (simp add: list_all_length)
      show "case weights of None \<Rightarrow> True | Some wn \<Rightarrow> get_col df wn \<noteq> None"
        using a by simp
    qed
    then show ?thesis
      unfolding calculate_association_matrix_def
      by (intro outer_loop_no_raise_upto) auto
  qed
next
  assume b: "calculate_association_matrix df variables weights = Inr m
        \<and> i < length variables \<and> j < length variables"
  then have after: "matrix_after df variables weights
        ({..<length variables} \<times> {..<length variables}) m"
    by (intro calculate_association_matrix_after) simp
  from b have i: "i < length variables" and j: "j < length variables" by simp_all
  have sq: "square (length variables) m" using after by (simp add: matrix_after_def)
  have entry: "m ! a ! b = entry_after df variables weights
        ({..<length variables} \<times> {..<length variables}) a b"
    if "a < length variables" "b < length variables" for a b
    using after that by (simp add: matrix_after_def)
  show "length m = length variables" using sq by (simp add: square_def)
  show "length (m ! i) = length variables" using sq i by (simp add: square_def list_all_length)
  show "m ! i ! j = m ! j ! i"
  proof -
    have "entry_after df variables weights visited i j = entry_after df variables weights visited j i"
      for visited
      by (auto simp: entry_after_def min.commute max.commute)
    then show ?thesis by (simp only: entry [OF i j] entry [OF j i])
  qed
  show "m ! i ! i = Some 1"
    using i by (simp add: entry [OF i i] entry_after_def)
  {
    assume "i < j"
    then show "m ! i ! j = pair_value df variables weights i j"
      using i j by (simp add: entry [OF i j] entry_after_def)
  }
  {
    assume "i < j"
    then show "m ! j ! i = pair_value df variables weights i j"
      using i j by (simp add: entry [OF j i] entry_after_def min.commute max.commute)
  }
qed

lemma sqrt_sixteenth: "sqrt (1 / 16) = 1 / 4"
  using real_sqrt_abs [of "1 / 4"] by (simp add: power2_eq_square)

text \<open>
  A run of \<^verbatim>\<open>cramers_v\<close>: two variables of two values each, every pair present, with
  weights 3, 1, 1, 3. The statistic after the correction is 1/2, the total weight 8, and
  the value 1/4.
\<close>

lemma cramers_v_example:
  "cramers_v [Str ''a'', Str ''a'', Str ''b'', Str ''b''] [Str ''c'', Str ''d'', Str ''c'', Str ''d'']
     (Some (Float64 [Some 3, Some 1, Some 1, Some 3])) = Some (1 / 4)"
proof -
  have t: "crosstab [Str ''a'', Str ''a'', Str ''b'', Str ''b''] [Str ''c'', Str ''d'', Str ''c'', Str ''d'']
     (Some [Some 3, Some 1, Some 1, Some 3]) = [[Some 3, Some 1], [Some 1, Some 3]]"
    by (simp add: crosstab_def crosstab_cell_def sum_skipna_def)
  have e: "expected_freq [[3, 1], [1, 3]] = [[2, 2], [2, 2]]"
    by (simp add: expected_freq_def upt_rec numeral_2_eq_2)
  have c: "chi2_contingency [[Some 3, Some 1], [Some 1, Some 3]] = Inr (Some (1 / 2))"
    by (simp add: chi2_contingency_def n_rows_def n_cols_def table_sum_def sum_skipna_def e
        yates_def pearson_def power2_eq_square)
  show ?thesis
    by (simp add: cramers_v_def t cramers_v_table_def table_empty_def n_rows_def n_cols_def
        table_sum_def sum_skipna_def c sqrt_sixteenth)
qed

text \<open>
  The matrix of these two variables, with the weight column named: 1 on the diagonal and
  1/4 in both other entries.
\<close>

theorem association_matrix_symmetric_witness:
  "list_all (\<lambda>v. get_col
       \<lparr>nrows = 4, cols = [(''A'', Object [Str ''a'', Str ''a'', Str ''b'', Str ''b'']),
                           (''B'', Object [Str ''c'', Str ''d'', Str ''c'', Str ''d'']),
                           (''FACTOR DE EXPANSION'', Float64 [Some 3, Some 1, Some 1, Some 3])]\<rparr> v \<noteq> None)
     [''A'', ''B'']
   \<and> calculate_association_matrix
       \<lparr>nrows = 4, cols = [(''A'', Object [Str ''a'', Str ''a'', Str ''b'', Str ''b'']),
                           (''B'', Object [Str ''c'', Str ''d'', Str ''c'', Str ''d'']),
                           (''FACTOR DE EXPANSION'', Float64 [Some 3, Some 1, Some 1, Some 3])]\<rparr>
       [''A'', ''B''] (Some ''FACTOR DE EXPANSION'')
     = Inr [[Some 1, Some (1 / 4)], [Some (1 / 4), Some 1]]
   \<and> pair_value
       \<lparr>nrows = 4, cols = [(''A'', Object [Str ''a'', Str ''a'', Str ''b'', Str ''b'']),
                           (''B'', Object [Str ''c'', Str ''d'', Str ''c'', Str ''d'']),
                           (''FACTOR DE EXPANSION'', Float64 [Some 3, Some 1, Some 1, Some 3])]\<rparr>
       [''A'', ''B''] (Some ''FACTOR DE EXPANSION'') 0 1 = Some (1 / 4)"
proof -
  let ?df = "\<lparr>nrows = 4, cols = [(''A'', Object [Str ''a'', Str ''a'', Str ''b'', Str ''b'']),
                           (''B'', Object [Str ''c'', Str ''d'', Str ''c'', Str ''d'']),
                           (''FACTOR DE EXPANSION'', Float64 [Some 3, Some 1, Some 1, Some 3])]\<rparr>"
  let ?m = "[[Some 1, Some (1 / 4)], [Some (1 / 4), Some (1 :: real)]]"
  have p: "pair_association ?df ''A'' ''B'' (Some ''FACTOR DE EXPANSION'') = Inr (Some (Some (1 / 4)))"
    by (simp add: pair_association_def get_col_def notna_def select_def cramers_v_example)
  have c: "calculate_association_matrix ?df [''A'', ''B''] (Some ''FACTOR DE EXPANSION'') = Inr ?m"
    by (simp add: calculate_association_matrix_def zeros_def set_entry_def p upt_rec numeral_2_eq_2)
  have g: "list_all (\<lambda>v. get_col ?df v \<noteq> None) [''A'', ''B'']"
    by (simp add: get_col_def)
  from association_matrix_symmetric [of ?df "[''A'', ''B'']" "Some ''FACTOR DE EXPANSION''" ?m 0 1]
       c g
  show ?thesis by simp
qed

text \<open>
  Claim C1 fails on the code. Three rows of weight 1 hold the pairs (a, c), (b, c) and
  (b, d); no row holds (a, d). The weighted table has a missing entry there, where the
  table of counts has 0, and the value returned is \<^verbatim>\<open>NaN\<close>: not a number of [0, 1] and
  not 0.0.
\<close>

theorem cramers_v_nan_on_absent_pair:
  "cramers_v [Str ''a'', Str ''b'', Str ''b''] [Str ''c'', Str ''c'', Str ''d'']
      (Some (Float64 [Some 1, Some 1, Some 1])) = None
   \<and> crosstab [Str ''a'', Str ''b'', Str ''b''] [Str ''c'', Str ''c'', Str ''d'']
      (Some [Some 1, Some 1, Some 1]) = [[Some 1, None], [Some 1, Some 1]]
   \<and> crosstab [Str ''a'', Str ''b'', Str ''b''] [Str ''c'', Str ''c'', Str ''d''] None
       = [[Some 1, Some 0], [Some 1, Some 1]]"
  by (simp add: cramers_v_def cramers_v_table_def crosstab_def crosstab_cell_def sum_skipna_def
      table_empty_def table_sum_def n_rows_def n_cols_def chi2_contingency_def)

end
